theory Spec2Isabelle
  imports Main "HOL-Library.Sublist"
begin

section \<open>Exceptions\<close>

text \<open>
  The exception classes that the two source files raise or catch. Every class is a
  constructor of its own, carrying the message. \<open>ScpNotConnectedError\<close> and
  \<open>ScpAbortError\<close> are declared in \<^verbatim>\<open>core/scpfolder.py\<close> (lines 14 and 17), both
  direct subclasses of \<open>Exception\<close>. \<open>SCPNotConnectedError\<close> and \<open>SCPCommandError\<close> are
  the classes that \<^verbatim>\<open>commands.py\<close> imports from \<^verbatim>\<open>core/scpclient.py\<close> (lines 13 and 14).
  An \<^verbatim>\<open>except C\<close> clause catches the instances of \<open>C\<close> and of its subclasses only, so a
  handler for \<open>SCPNotConnectedError\<close> does not catch a \<open>ScpNotConnectedError\<close>.
\<close>

datatype error =
    ValueError string
  | OSError string
  | ScpNotConnectedError string
  | ScpAbortError string
  | SCPNotConnectedError string
  | SCPCommandError string

section \<open>Strings\<close>

text \<open>
  Python's \<^verbatim>\<open>s.startswith(t)\<close> is \<^term>\<open>prefix t s\<close> and \<^verbatim>\<open>t in s\<close> is
  \<^term>\<open>sublist t s\<close> (a contiguous run of \<open>s\<close>). \<^verbatim>\<open>s.replace("\\", "/")\<close> works
  character by character. \<open>lower_char\<close> is what \<^verbatim>\<open>str.lower\<close> does to an ASCII character.
\<close>

definition lower_char :: "char \<Rightarrow> char" where
  "lower_char c =
     (let n = of_char c :: nat in
      if 65 \<le> n \<and> n \<le> 90
      then Char (digit0 c) (digit1 c) (digit2 c) (digit3 c) (digit4 c) True (digit6 c) (digit7 c)
      else c)"

definition backslash :: char where
  "backslash = CHR 0x5C"

definition replace_backslash :: "string \<Rightarrow> string" where
  "replace_backslash s = map (\<lambda>c. if c = backslash then CHR ''/'' else c) s"

text \<open>\<^verbatim>\<open>s.split(sep)\<close> for a separator of one character.\<close>

fun split_sep :: "char \<Rightarrow> string \<Rightarrow> string list" where
  "split_sep sep [] = [[]]"
| "split_sep sep (c # cs) =
     (if c = sep then [] # split_sep sep cs
      else (case split_sep sep cs of
              [] \<Rightarrow> [[c]]
            | x # xs \<Rightarrow> (c # x) # xs))"

text \<open>\<^verbatim>\<open>sep.join(xs)\<close>.\<close>

fun str_join :: "string \<Rightarrow> string list \<Rightarrow> string" where
  "str_join sep [] = []"
| "str_join sep [x] = x"
| "str_join sep (x # y # ys) = x @ sep @ str_join sep (y # ys)"

section \<open>The platform: \<^verbatim>\<open>sys.platform\<close> and \<^verbatim>\<open>os.path\<close>\<close>

text \<open>
  The interpreter: whether \<^verbatim>\<open>sys.platform == "win32"\<close>, and what \<^verbatim>\<open>str.lower\<close> returns
  for a string that has a character outside ASCII (the case mapping of Unicode, which
  the program does not define).
\<close>

record system =
  win32 :: bool
  unicode_lower :: "string \<Rightarrow> string"

text \<open>
  \<^verbatim>\<open>str.lower\<close>: on a string of ASCII characters it lower-cases the letters A to Z and
  leaves every other character; on any other string it is the case mapping of
  Unicode.
\<close>

definition lower :: "'a system_scheme \<Rightarrow> string \<Rightarrow> string" where
  "lower sys s =
     (if list_all (\<lambda>c. (of_char c :: nat) < 128) s then map lower_char s
      else unicode_lower sys s)"

text \<open>
  \<^verbatim>\<open>os.path\<close> is \<^verbatim>\<open>posixpath\<close> or \<^verbatim>\<open>ntpath\<close>, depending on the host. The functions
  of the program take the platform as a parameter: the interpreter and the functions
  of \<^verbatim>\<open>os.path\<close> that the program calls.
\<close>

record platform = system +
  sep :: char
  join :: "string \<Rightarrow> string \<Rightarrow> string"
  relpath :: "string \<Rightarrow> string \<Rightarrow> error + string"
  basename :: "string \<Rightarrow> string"

subsection \<open>\<^verbatim>\<open>posixpath\<close>\<close>

text \<open>
  The POSIX instance follows CPython's \<^verbatim>\<open>Lib/posixpath.py\<close>: \<^verbatim>\<open>join\<close>, \<^verbatim>\<open>normpath\<close>,
  \<^verbatim>\<open>abspath\<close> (with the working directory as a parameter), \<^verbatim>\<open>relpath\<close> and
  \<^verbatim>\<open>basename\<close>. The program lower-cases nothing on this platform, and the instance
  gives \<open>unicode_lower\<close> the identity.
\<close>

definition posix_join :: "string \<Rightarrow> string \<Rightarrow> string" where
  "posix_join a b =
     (if prefix ''/'' b then b
      else if a = [] \<or> suffix ''/'' a then a @ b
      else a @ ''/'' @ b)"

fun normpath_loop :: "nat \<Rightarrow> string list \<Rightarrow> string list \<Rightarrow> string list" where
  "normpath_loop initial_slashes new_comps [] = new_comps"
| "normpath_loop initial_slashes new_comps (cmp # comps) =
     (if cmp = [] \<or> cmp = ''.'' then normpath_loop initial_slashes new_comps comps
      else if cmp \<noteq> ''..'' \<or> (initial_slashes = 0 \<and> new_comps = [])
                \<or> (new_comps \<noteq> [] \<and> last new_comps = ''..'')
      then normpath_loop initial_slashes (new_comps @ [cmp]) comps
      else if new_comps \<noteq> [] then normpath_loop initial_slashes (butlast new_comps) comps
      else normpath_loop initial_slashes new_comps comps)"

definition posix_normpath :: "string \<Rightarrow> string" where
  "posix_normpath path =
     (if path = [] then ''.''
      else
        let initial_slashes =
              (if prefix ''/'' path
               then (if prefix ''//'' path \<and> \<not> prefix ''///'' path then 2 else 1)
               else (0::nat));
            comps = normpath_loop initial_slashes [] (split_sep (CHR ''/'') path);
            p = replicate initial_slashes (CHR ''/'') @ str_join ''/'' comps
        in if p = [] then ''.'' else p)"

definition posix_abspath :: "string \<Rightarrow> string \<Rightarrow> string" where
  "posix_abspath cwd path =
     posix_normpath (if prefix ''/'' path then path else posix_join cwd path)"

definition posix_relpath :: "string \<Rightarrow> string \<Rightarrow> string \<Rightarrow> error + string" where
  "posix_relpath cwd path start =
     (if path = [] then Inl (ValueError ''no path specified'')
      else
        let start_list = filter (\<lambda>x. x \<noteq> []) (split_sep (CHR ''/'') (posix_abspath cwd start));
            path_list = filter (\<lambda>x. x \<noteq> []) (split_sep (CHR ''/'') (posix_abspath cwd path));
            i = length (longest_common_prefix start_list path_list);
            rel_list = replicate (length start_list - i) ''..'' @ drop i path_list
        in (case rel_list of
              [] \<Rightarrow> Inr ''.''
            | r # rs \<Rightarrow> Inr (foldl posix_join r rs)))"

definition posix_basename :: "string \<Rightarrow> string" where
  "posix_basename p = rev (takeWhile (\<lambda>c. c \<noteq> CHR ''/'') (rev p))"

definition posixpath :: "string \<Rightarrow> platform" where
  "posixpath cwd =
     \<lparr> win32 = False, unicode_lower = (\<lambda>s. s), sep = CHR ''/'', join = posix_join,
       relpath = posix_relpath cwd, basename = posix_basename \<rparr>"

section \<open>\<^verbatim>\<open>core/scpfolder.py\<close>\<close>

subsection \<open>Sessions and the registry\<close>

text \<open>
  An \<open>SCPFolder\<close> object: the local root of the mapping, the remote path, and what
  \<open>SCPClient.__init__\<close> receives. \<open>cancelled\<close> is the cancellation flag of the transport
  (state of the base class \<open>SCPClient\<close>).
\<close>

record scpfolder =
  root :: string
  remote_path :: string
  host :: string
  port :: nat
  user :: string
  passwd :: "string option"
  cancelled :: bool

text \<open>
  Python compares and hashes the session objects by identity. A session of the model
  is the object together with its identity, the number it received when it was
  constructed.
\<close>

type_synonym conn = "nat \<times> scpfolder"

text \<open>
  The module-level list \<^verbatim>\<open>connections\<close>, in registration order. \<open>next_id\<close> is the
  identity of the next object, \<open>constructed\<close> the arguments of the calls of the
  constructor \<^verbatim>\<open>SCPFolder(...)\<close> so far.
\<close>

record registry =
  connections :: "conn list"
  next_id :: nat
  constructed :: "string list"

subsection \<open>\<^verbatim>\<open>connection\<close> and \<^verbatim>\<open>is_connected\<close>\<close>

fun connection_loop :: "string \<Rightarrow> conn list \<Rightarrow> conn option" where
  "connection_loop p [] = None"
| "connection_loop p (client # clients) =
     (if prefix (root (snd client)) p then Some client else connection_loop p clients)"

definition connection :: "'a system_scheme \<Rightarrow> conn list \<Rightarrow> string \<Rightarrow> error + conn" where
  "connection pf conns path =
     (case (if path \<noteq> []
            then connection_loop (if win32 pf then lower pf path else path) conns
            else None) of
        Some client \<Rightarrow> Inr client
      | None \<Rightarrow> Inl (ScpNotConnectedError (''No SCP connection for '' @ path @ ''!'')))"

fun is_connected_loop :: "string \<Rightarrow> conn list \<Rightarrow> bool" where
  "is_connected_loop p [] = False"
| "is_connected_loop p (client # clients) =
     (if prefix (root (snd client)) p then True else is_connected_loop p clients)"

definition is_connected :: "'a system_scheme \<Rightarrow> conn list \<Rightarrow> string \<Rightarrow> bool" where
  "is_connected pf conns path =
     (if path \<noteq> []
      then is_connected_loop (if win32 pf then lower pf path else path) conns
      else False)"

subsection \<open>\<^verbatim>\<open>connect\<close>\<close>

text \<open>
  The constructor \<^verbatim>\<open>SCPFolder(path)\<close> searches the local file system for the mapping
  declaration, reads it with \<^verbatim>\<open>sublime.decode_value\<close> and calls \<open>SCPClient.__init__\<close>;
  \<^verbatim>\<open>connect\<close> only tells a constructed object from an exception, so the constructor is
  a parameter. The result \<open>None\<close> is the \<^verbatim>\<open>False\<close> that \<^verbatim>\<open>connect\<close> returns when the
  constructor raised.
\<close>

definition connect ::
  "'a system_scheme \<Rightarrow> (string \<Rightarrow> error + scpfolder) \<Rightarrow> registry \<Rightarrow> string
     \<Rightarrow> registry \<times> (error + conn option)" where
  "connect pf SCPFolder reg path =
     (case connection pf (connections reg) path of
        Inr client \<Rightarrow> (reg, Inr (Some client))
      | Inl (ScpNotConnectedError msg) \<Rightarrow>
          (let arg = (if win32 pf then lower pf path else path);
               reg1 = reg\<lparr>constructed := constructed reg @ [arg]\<rparr>
           in case SCPFolder arg of
                Inr folder \<Rightarrow>
                  (let client = (next_id reg1, folder)
                   in (reg1\<lparr>connections := connections reg1 @ [client],
                             next_id := Suc (next_id reg1)\<rparr>,
                       Inr (Some client)))
              | Inl e \<Rightarrow> (reg1, Inr None))
      | Inl e \<Rightarrow> (reg, Inl e))"

subsection \<open>\<^verbatim>\<open>SCPFolder.to_remote_path\<close>\<close>

definition to_remote_path :: "'a platform_scheme \<Rightarrow> scpfolder \<Rightarrow> string \<Rightarrow> error + string" where
  "to_remote_path pf self path =
     (if path = root self then Inr (remote_path self)
      else
        (case relpath pf path (root self) of
           Inl e \<Rightarrow> Inl e
         | Inr rel \<Rightarrow>
             (let remote_path' = replace_backslash (join pf (remote_path self) rel)
              in if sublist ''..'' remote_path' then Inl (ValueError ''Invalid path!'')
                 else Inr remote_path')))"

text \<open>The segments of a remote path: the runs of characters between its slashes.\<close>

definition segments :: "string \<Rightarrow> string list" where
  "segments p = split_sep (CHR ''/'') p"

section \<open>The world of \<^verbatim>\<open>commands.py\<close>\<close>

subsection \<open>The local disk and tar archives\<close>

text \<open>
  An entry of the local file system, as \<^verbatim>\<open>os.lstat\<close> and \<^verbatim>\<open>os.listdir\<close> show it: its owner
  (user id, group id, user name, group name) and, for a directory, its entries by name
  in sorted order.
\<close>

type_synonym owner = "nat \<times> nat \<times> string \<times> string"

datatype fsnode =
    RegFile owner
  | Directory owner "(string \<times> fsnode) list"

type_synonym disk = "string \<rightharpoonup> fsnode"

definition isfile :: "disk \<Rightarrow> string \<Rightarrow> bool" where
  "isfile d p = (case d p of Some (RegFile ow) \<Rightarrow> True | _ \<Rightarrow> False)"

text \<open>A member of a tar archive (\<^verbatim>\<open>tarfile.TarInfo\<close>).\<close>

record tarinfo =
  path :: string
  isdir :: bool
  uid :: nat
  gid :: nat
  uname :: string
  gname :: string

subsection \<open>Effects\<close>

text \<open>
  A call of a method of the base class \<open>SCPClient\<close>: \<^verbatim>\<open>putfile(local, remote)\<close>,
  \<^verbatim>\<open>getfile(remote, local)\<close>, \<^verbatim>\<open>remove(remote)\<close> and \<^verbatim>\<open>plink(command)\<close>.
\<close>

datatype remote_call =
    Putfile string string
  | Getfile string string
  | Remove string
  | Plink string

text \<open>
  The state that the commands read and change: the registry, the local disk, and what
  the program has done so far: the calls of \<open>SCPClient\<close> methods with the identity of
  the session, the status messages, the lines printed, the archives written (path and
  members) and the number of temporary files made.
\<close>

record world = registry +
  disk :: disk
  calls :: "(nat \<times> remote_call) list"
  messages :: "string list"
  printed :: "string list"
  packed :: "(string \<times> tarinfo list) list"
  mkstemp_count :: nat

text \<open>
  What the program depends on and the two source files do not define:
  \<^item> \<open>most\<close>: \<^verbatim>\<open>core.commonpath.most\<close>, the common root of a list of paths;
  \<^item> \<open>mkstemp_name\<close>: the path that the n-th call of \<^verbatim>\<open>tempfile.mkstemp(prefix="scp_")\<close>
    returns, and \<open>current_owner\<close>: the owner of the files the program creates;
  \<^item> \<open>outcome\<close>: whether a call of an \<open>SCPClient\<close> method raises, given all calls so far
    (the last one is the call in question);
  \<^item> \<open>extraction\<close>: the entries that extracting the downloaded archive in a directory writes
    to the disk, and the exception it raises, if any (opening the archive,
    \<^verbatim>\<open>os.makedirs\<close>, \<^verbatim>\<open>os.chdir\<close> and \<^verbatim>\<open>extractall\<close>);
  \<^item> \<open>task_cancel_all\<close>: \<^verbatim>\<open>core.task.cancel_all\<close>.
\<close>

record env =
  most :: "string list \<Rightarrow> error + string"
  mkstemp_name :: "nat \<Rightarrow> string"
  current_owner :: owner
  outcome :: "(nat \<times> remote_call) list \<Rightarrow> error option"
  extraction :: "string \<Rightarrow> string \<Rightarrow> (string \<times> fsnode) list \<times> error option"
  task_cancel_all :: "world \<Rightarrow> world"

text \<open>
  A statement is a function from the world to the new world and either the exception
  raised or the value returned. \<open>seq\<close> runs the next statement unless the first one
  raised; \<open>try_except\<close> and \<open>try_finally\<close> are Python's.
\<close>

type_synonym 'a stmt = "world \<Rightarrow> world \<times> (error + 'a)"

definition return :: "'a \<Rightarrow> 'a stmt" where
  "return x w = (w, Inr x)"

definition raise :: "error \<Rightarrow> 'a stmt" where
  "raise e w = (w, Inl e)"

definition lift :: "error + 'a \<Rightarrow> 'a stmt" where
  "lift r w = (w, r)"

definition seq :: "'a stmt \<Rightarrow> ('a \<Rightarrow> 'b stmt) \<Rightarrow> 'b stmt" where
  "seq m f w = (case m w of (w', Inl e) \<Rightarrow> (w', Inl e) | (w', Inr x) \<Rightarrow> f x w')"

definition try_except :: "'a stmt \<Rightarrow> (error \<Rightarrow> 'a stmt) \<Rightarrow> 'a stmt" where
  "try_except m handler w =
     (case m w of (w', Inl e) \<Rightarrow> handler e w' | (w', Inr x) \<Rightarrow> (w', Inr x))"

definition try_finally :: "'a stmt \<Rightarrow> unit stmt \<Rightarrow> 'a stmt" where
  "try_finally m fin w =
     (case m w of
        (w', r) \<Rightarrow> (case fin w' of (w'', Inl e) \<Rightarrow> (w'', Inl e) | (w'', Inr u) \<Rightarrow> (w'', r)))"

text \<open>\<^verbatim>\<open>try: m  except: pass\<close>.\<close>

definition suppress :: "unit stmt \<Rightarrow> unit stmt" where
  "suppress m = try_except m (\<lambda>e. return ())"

definition status_message :: "string \<Rightarrow> unit stmt" where
  "status_message msg w = (w\<lparr>messages := messages w @ [msg]\<rparr>, Inr ())"

definition is_space :: "char \<Rightarrow> bool" where
  "is_space c = (let n = of_char c :: nat in (9 \<le> n \<and> n \<le> 13) \<or> (28 \<le> n \<and> n \<le> 32))"

definition strip :: "string \<Rightarrow> string" where
  "strip s = rev (dropWhile is_space (rev (dropWhile is_space s)))"

definition print :: "string \<Rightarrow> unit stmt" where
  "print line w = (w\<lparr>printed := printed w @ [line]\<rparr>, Inr ())"

text \<open>
  \<^verbatim>\<open>tempfile.mkstemp(prefix="scp_")\<close> followed by \<^verbatim>\<open>os.close\<close>: a new regular file.
\<close>

definition mkstemp :: "env \<Rightarrow> string stmt" where
  "mkstemp E w =
     (let name = mkstemp_name E (mkstemp_count w)
      in (w\<lparr>disk := (disk w)(name \<mapsto> RegFile (current_owner E)),
             mkstemp_count := Suc (mkstemp_count w)\<rparr>, Inr name))"

text \<open>
  \<^verbatim>\<open>os.remove(path)\<close>: the program passes it the temporary file it made, and nothing
  else.
\<close>

definition os_remove :: "string \<Rightarrow> unit stmt" where
  "os_remove p w =
     (if p \<in> dom (disk w) then (w\<lparr>disk := (disk w)(p := None)\<rparr>, Inr ())
      else (w, Inl (OSError (''No such file or directory: '' @ p))))"

text \<open>
  Modelled from the spec: \<^verbatim>\<open>core/scpclient.py\<close> is not among the sources. A method of
  \<open>SCPClient\<close> is a remote operation that succeeds or raises; a successful
  \<^verbatim>\<open>getfile(remote, local)\<close> leaves the downloaded file at the local path.
\<close>

definition scp_call :: "env \<Rightarrow> conn \<Rightarrow> remote_call \<Rightarrow> unit stmt" where
  "scp_call E conn c w =
     (let w' = w\<lparr>calls := calls w @ [(fst conn, c)]\<rparr>
      in case outcome E (calls w') of
           Some e \<Rightarrow> (w', Inl e)
         | None \<Rightarrow>
             (case c of
                Getfile remote local \<Rightarrow>
                  (w'\<lparr>disk := (disk w')(local \<mapsto> RegFile (current_owner E))\<rparr>, Inr ())
              | _ \<Rightarrow> (w', Inr ())))"

text \<open>
  Extracting the downloaded archive: \<^verbatim>\<open>tarfile.open(local_tmp, "r")\<close>, \<^verbatim>\<open>os.makedirs\<close>,
  \<^verbatim>\<open>os.chdir\<close> and \<^verbatim>\<open>tar.extractall()\<close>. The members come from the remote host.
\<close>

definition extractall :: "env \<Rightarrow> string \<Rightarrow> string \<Rightarrow> unit stmt" where
  "extractall E local_tmp local_dir w =
     (case extraction E local_tmp local_dir of
        (written, err) \<Rightarrow>
          (w\<lparr>disk := disk w ++ map_of written\<rparr>,
           case err of None \<Rightarrow> Inr () | Some e \<Rightarrow> Inl e))"

section \<open>\<^verbatim>\<open>commands.py\<close>\<close>

subsection \<open>Packing the upload archive\<close>

text \<open>
  \<^verbatim>\<open>tarfilter\<close>, the filter that \<^verbatim>\<open>puttree\<close> passes to \<^verbatim>\<open>tar.add\<close> (lines 244 to 250).
\<close>

definition tarfilter :: "tarinfo \<Rightarrow> tarinfo option" where
  "tarfilter ti =
     (if list_ex (\<lambda>f. sublist f (path ti)) [''.scp'', ''.git''] then None
      else Some (ti\<lparr>uid := 0, gid := 0, uname := ''root'', gname := ''root''\<rparr>))"

text \<open>
  \<^verbatim>\<open>TarFile.gettarinfo\<close> and \<^verbatim>\<open>TarFile.add\<close> of the standard library: the member gets the
  archive name with \<^verbatim>\<open>os.sep\<close> replaced by a slash and leading slashes removed, and the
  owner of the file; \<^verbatim>\<open>add\<close> passes every member to the filter, leaves out a member for
  which the filter returns \<^verbatim>\<open>None\<close> (a directory with all it contains), and adds the
  entries of a directory recursively. The test of \<^verbatim>\<open>add\<close> that skips the archive's own
  file is left out: it can only remove members.
\<close>

definition gettarinfo :: "'a platform_scheme \<Rightarrow> string \<Rightarrow> bool \<Rightarrow> owner \<Rightarrow> tarinfo" where
  "gettarinfo pf arcname d ow =
     (case ow of
        (u, g, un, gn) \<Rightarrow>
          \<lparr> path = dropWhile (\<lambda>c. c = CHR ''/'')
                     (map (\<lambda>c. if c = sep pf then CHR ''/'' else c) arcname),
            isdir = d, uid = u, gid = g, uname = un, gname = gn \<rparr>)"

fun tar_add ::
  "'a platform_scheme \<Rightarrow> (tarinfo \<Rightarrow> tarinfo option) \<Rightarrow> string \<Rightarrow> fsnode \<Rightarrow> tarinfo list" where
  "tar_add pf filt arcname (RegFile ow) =
     (case filt (gettarinfo pf arcname False ow) of
        None \<Rightarrow> []
      | Some ti \<Rightarrow> [ti])"
| "tar_add pf filt arcname (Directory ow entries) =
     (case filt (gettarinfo pf arcname True ow) of
        None \<Rightarrow> []
      | Some ti \<Rightarrow>
          ti # concat (map (\<lambda>(f, entry). tar_add pf filt (join pf arcname f) entry) entries))"

text \<open>
  The loop of lines 252 to 257: every path of the group is added under its name
  relative to the common root. A path that is not on the disk makes \<^verbatim>\<open>tar.add\<close> raise.
\<close>

fun add_paths :: "'a platform_scheme \<Rightarrow> disk \<Rightarrow> string \<Rightarrow> string list \<Rightarrow> error + tarinfo list" where
  "add_paths pf d local_dir [] = Inr []"
| "add_paths pf d local_dir (p # ps) =
     (case relpath pf p local_dir of
        Inl e \<Rightarrow> Inl e
      | Inr arcname \<Rightarrow>
          (case d p of
             None \<Rightarrow> Inl (OSError (''No such file or directory: '' @ p))
           | Some node \<Rightarrow>
               (case add_paths pf d local_dir ps of
                  Inl e \<Rightarrow> Inl e
                | Inr members \<Rightarrow> Inr (tar_add pf tarfilter arcname node @ members))))"

text \<open>The \<^verbatim>\<open>with tarfile.open(local_tmp, "w") as tar\<close> block of \<^verbatim>\<open>puttree\<close>.\<close>

definition pack :: "'a platform_scheme \<Rightarrow> string \<Rightarrow> string \<Rightarrow> string list \<Rightarrow> unit stmt" where
  "pack pf local_tmp local_dir paths w =
     (case add_paths pf (disk w) local_dir paths of
        Inl e \<Rightarrow> (w, Inl e)
      | Inr members \<Rightarrow> (w\<lparr>packed := packed w @ [(local_tmp, members)]\<rparr>, Inr ()))"

subsection \<open>The methods of \<open>SCPFolder\<close> that the commands call\<close>

definition SCPFolder_putfile :: "'a platform_scheme \<Rightarrow> env \<Rightarrow> conn \<Rightarrow> string \<Rightarrow> unit stmt" where
  "SCPFolder_putfile pf E conn p =
     seq (lift (to_remote_path pf (snd conn) p)) (\<lambda>remote. scp_call E conn (Putfile p remote))"

definition SCPFolder_getfile :: "'a platform_scheme \<Rightarrow> env \<Rightarrow> conn \<Rightarrow> string \<Rightarrow> unit stmt" where
  "SCPFolder_getfile pf E conn p =
     seq (lift (to_remote_path pf (snd conn) p)) (\<lambda>remote. scp_call E conn (Getfile remote p))"

text \<open>
  Modelled from the spec: \<open>SCPClient.cancel\<close> sets the cancellation flag of the session.
\<close>

definition SCPClient_cancel :: "conn \<Rightarrow> unit stmt" where
  "SCPClient_cancel conn w =
     (w\<lparr>connections :=
          map (\<lambda>c. if fst c = fst conn then (fst c, (snd c)\<lparr>cancelled := True\<rparr>) else c)
            (connections w)\<rparr>,
      Inr ())"

definition SCPFolder_cancel :: "conn \<Rightarrow> unit stmt" where
  "SCPFolder_cancel conn =
     seq (SCPClient_cancel conn) (\<lambda>u. raise (ScpAbortError ''Aborted by user!''))"

subsection \<open>\<^verbatim>\<open>ScpGetCommand.gettree\<close> and \<^verbatim>\<open>ScpPutCommand.puttree\<close>\<close>

definition pack_command :: "string \<Rightarrow> string \<Rightarrow> string" where
  "pack_command remote_dir remote_tmp = ''tar -C '' @ remote_dir @ '' -cf '' @ remote_tmp @ '' .''"

definition unpack_command :: "string \<Rightarrow> string \<Rightarrow> string" where
  "unpack_command remote_dir remote_tmp =
     ''mkdir -p '' @ remote_dir @ ''; tar -C '' @ remote_dir @ '' -xf '' @ remote_tmp
       @ ''; rm '' @ remote_tmp"

text \<open>
  The handler \<^verbatim>\<open>except SCPCommandError as err\<close> of both functions: it prints the message
  and reports the failure; any other exception passes through.
\<close>

definition on_command_error :: "string \<Rightarrow> error \<Rightarrow> unit stmt" where
  "on_command_error failure err =
     (case err of
        SCPCommandError msg \<Rightarrow> seq (print (strip msg)) (\<lambda>u. status_message failure)
      | _ \<Rightarrow> raise err)"

text \<open>The \<^verbatim>\<open>try\<close> block of \<^verbatim>\<open>gettree\<close> (lines 163 to 181) and its \<^verbatim>\<open>finally\<close> block.\<close>

definition gettree_try ::
  "'a platform_scheme \<Rightarrow> env \<Rightarrow> conn \<Rightarrow> string \<Rightarrow> string \<Rightarrow> string \<Rightarrow> string \<Rightarrow> unit stmt" where
  "gettree_try pf E conn local_dir remote_dir local_tmp remote_tmp =
     seq (status_message ''SCP: preparing download ...'') (\<lambda>u.
     seq (scp_call E conn (Plink (pack_command remote_dir remote_tmp))) (\<lambda>u.
     seq (scp_call E conn (Getfile remote_tmp local_tmp)) (\<lambda>u.
     seq (status_message ''SCP: extracting ...'') (\<lambda>u.
     seq (extractall E local_tmp local_dir) (\<lambda>u.
     status_message (''SCP: Downloaded '' @ local_dir @ ''!''))))))"

definition gettree_finally :: "env \<Rightarrow> conn \<Rightarrow> string \<Rightarrow> string \<Rightarrow> unit stmt" where
  "gettree_finally E conn remote_tmp local_tmp =
     seq (suppress (scp_call E conn (Remove remote_tmp))) (\<lambda>u.
     suppress (os_remove local_tmp))"

definition gettree :: "'a platform_scheme \<Rightarrow> env \<Rightarrow> conn \<Rightarrow> string list \<Rightarrow> unit stmt" where
  "gettree pf E conn paths =
     seq (lift (most E paths)) (\<lambda>local_dir.
     seq (lift (to_remote_path pf (snd conn) local_dir)) (\<lambda>remote_dir.
     seq (mkstemp E) (\<lambda>local_tmp.
       let remote_tmp = ''/tmp/'' @ basename pf local_tmp in
       try_finally
         (try_except
            (gettree_try pf E conn local_dir remote_dir local_tmp remote_tmp)
            (on_command_error (''SCP: Failed to download '' @ local_dir @ ''!'')))
         (gettree_finally E conn remote_tmp local_tmp))))"

text \<open>
  The \<^verbatim>\<open>try\<close> block of \<^verbatim>\<open>puttree\<close> (lines 260 to 273). In \<^verbatim>\<open>puttree\<close> the archive is
  packed before the \<^verbatim>\<open>try\<close> statement (lines 242 to 257), and the \<^verbatim>\<open>finally\<close> block is
  \<^verbatim>\<open>os.remove(local_tmp)\<close>.
\<close>

definition puttree_try ::
  "'a platform_scheme \<Rightarrow> env \<Rightarrow> conn \<Rightarrow> string \<Rightarrow> string \<Rightarrow> string \<Rightarrow> unit stmt" where
  "puttree_try pf E conn local_dir remote_dir local_tmp =
     (let remote_tmp = ''/tmp/'' @ basename pf local_tmp in
      seq (scp_call E conn (Putfile local_tmp remote_tmp)) (\<lambda>u.
      seq (status_message ''SCP: extracting uploaded tarfile ...'') (\<lambda>u.
      seq (scp_call E conn (Plink (unpack_command remote_dir remote_tmp))) (\<lambda>u.
      status_message (''SCP: Uploaded '' @ local_dir @ ''!'')))))"

definition puttree :: "'a platform_scheme \<Rightarrow> env \<Rightarrow> conn \<Rightarrow> string list \<Rightarrow> unit stmt" where
  "puttree pf E conn paths =
     seq (lift (most E paths)) (\<lambda>local_dir.
     seq (lift (to_remote_path pf (snd conn) local_dir)) (\<lambda>remote_dir.
     seq (mkstemp E) (\<lambda>local_tmp.
     seq (status_message ''SCP: preparing upload ...'') (\<lambda>u.
     seq (pack pf local_tmp local_dir paths) (\<lambda>u.
       try_finally
         (try_except
            (puttree_try pf E conn local_dir remote_dir local_tmp)
            (on_command_error (''SCP: Failed to upload '' @ local_dir @ ''!'')))
         (os_remove local_tmp))))))"

subsection \<open>The executors\<close>

text \<open>
  \<^verbatim>\<open>groups.setdefault(conn, []).append(path)\<close> on a dictionary that keeps the order of
  insertion; its keys are session objects, compared by identity.
\<close>

type_synonym groups = "(conn \<times> string list) list"

fun setdefault_append :: "groups \<Rightarrow> conn \<Rightarrow> string \<Rightarrow> groups" where
  "setdefault_append [] conn p = [(conn, [p])]"
| "setdefault_append ((k, ps) # gs) conn p =
     (if fst k = fst conn then (k, ps @ [p]) # gs
      else (k, ps) # setdefault_append gs conn p)"

text \<open>
  The first loop of both executors (lines 124 to 131 and 204 to 211). The handler
  names the class \<open>SCPNotConnectedError\<close> of \<^verbatim>\<open>core.scpclient\<close>.
\<close>

fun group_paths :: "'a platform_scheme \<Rightarrow> conn list \<Rightarrow> groups \<Rightarrow> string list \<Rightarrow> error + groups" where
  "group_paths pf conns gs [] = Inr gs"
| "group_paths pf conns gs (p # ps) =
     (if list_ex (\<lambda>f. sublist f p) [''.scp'', ''.git''] then group_paths pf conns gs ps
      else
        (case connection pf conns p of
           Inr conn \<Rightarrow> group_paths pf conns (setdefault_append gs conn p) ps
         | Inl (SCPNotConnectedError msg) \<Rightarrow> group_paths pf conns gs ps
         | Inl e \<Rightarrow> Inl e))"

text \<open>The body of the second loop, for one group.\<close>

definition put_group :: "'a platform_scheme \<Rightarrow> env \<Rightarrow> conn \<Rightarrow> string list \<Rightarrow> unit stmt" where
  "put_group pf E conn paths w =
     (if length paths = 1 \<and> isfile (disk w) (hd paths)
      then seq (SCPFolder_putfile pf E conn (hd paths)) (\<lambda>u.
           status_message (''SCP: Uploaded '' @ hd paths @ ''!'')) w
      else puttree pf E conn paths w)"

definition get_group :: "'a platform_scheme \<Rightarrow> env \<Rightarrow> conn \<Rightarrow> string list \<Rightarrow> unit stmt" where
  "get_group pf E conn paths w =
     (if length paths = 1 \<and> isfile (disk w) (hd paths)
      then seq (SCPFolder_getfile pf E conn (hd paths)) (\<lambda>u.
           status_message (''SCP: Downloaded '' @ hd paths @ ''!'')) w
      else gettree pf E conn paths w)"

fun put_groups :: "'a platform_scheme \<Rightarrow> env \<Rightarrow> groups \<Rightarrow> unit stmt" where
  "put_groups pf E [] = return ()"
| "put_groups pf E ((conn, paths) # gs) =
     seq (put_group pf E conn paths) (\<lambda>u. put_groups pf E gs)"

fun get_groups :: "'a platform_scheme \<Rightarrow> env \<Rightarrow> groups \<Rightarrow> unit stmt" where
  "get_groups pf E [] = return ()"
| "get_groups pf E ((conn, paths) # gs) =
     seq (get_group pf E conn paths) (\<lambda>u. get_groups pf E gs)"

definition put_executor :: "'a platform_scheme \<Rightarrow> env \<Rightarrow> string list \<Rightarrow> unit stmt" where
  "put_executor pf E paths w =
     seq (lift (group_paths pf (connections w) [] paths)) (put_groups pf E) w"

definition get_executor :: "'a platform_scheme \<Rightarrow> env \<Rightarrow> string list \<Rightarrow> unit stmt" where
  "get_executor pf E paths w =
     seq (lift (group_paths pf (connections w) [] paths)) (get_groups pf E) w"

subsection \<open>\<^verbatim>\<open>ScpCancelCommand.run\<close>\<close>

text \<open>
  The loop of lines 112 to 116 over the paths that \<^verbatim>\<open>ensure_paths\<close> returned, and the
  command around it.
\<close>

fun cancel_loop :: "'a platform_scheme \<Rightarrow> string list \<Rightarrow> unit stmt" where
  "cancel_loop pf [] = return ()"
| "cancel_loop pf (p # ps) =
     seq (try_except
            (seq (\<lambda>w. (w, connection pf (connections w) p)) SCPFolder_cancel)
            (\<lambda>err. case err of
                SCPNotConnectedError msg \<Rightarrow> return ()
              | _ \<Rightarrow> raise err))
         (\<lambda>u. cancel_loop pf ps)"

definition cancel_run :: "'a platform_scheme \<Rightarrow> env \<Rightarrow> string list \<Rightarrow> unit stmt" where
  "cancel_run pf E paths =
     seq (\<lambda>w. (task_cancel_all E w, Inr ())) (\<lambda>u.
     seq (cancel_loop pf paths) (\<lambda>u.
     status_message ''SCP: Aborted!''))"

subsection \<open>Observations\<close>

text \<open>The commands that a list of calls passes to \<^verbatim>\<open>plink\<close>, in order.\<close>

fun plink_commands :: "(nat \<times> remote_call) list \<Rightarrow> string list" where
  "plink_commands [] = []"
| "plink_commands ((i, Plink cmd) # cs) = cmd # plink_commands cs"
| "plink_commands (c # cs) = plink_commands cs"

section \<open>Example data\<close>

text \<open>
  The mapping of the end-to-end scenario, \<^verbatim>\<open>/proj\<close> to \<^verbatim>\<open>/home/guest/proj\<close>, a second
  mapping, and a mapping whose configured remote path has a parent-directory segment.
\<close>

definition proj_session :: scpfolder where
  "proj_session =
     \<lparr> root = ''/proj'', remote_path = ''/home/guest/proj'', host = ''192.168.0.1'',
       port = 22, user = ''guest'', passwd = Some ''guest'', cancelled = False \<rparr>"

definition work_session :: scpfolder where
  "work_session =
     \<lparr> root = ''/work'', remote_path = ''/srv/work'', host = ''192.168.0.2'',
       port = 22, user = ''guest'', passwd = None, cancelled = False \<rparr>"

definition dotdot_session :: scpfolder where
  "dotdot_session =
     \<lparr> root = ''/proj'', remote_path = ''/srv/../etc'', host = ''192.168.0.1'',
       port = 22, user = ''guest'', passwd = None, cancelled = False \<rparr>"

text \<open>
  An interpreter on Windows. The paths of the examples are ASCII, so \<open>unicode_lower\<close> is
  never applied to them; it is the identity here.
\<close>

definition windows :: system where
  "windows = \<lparr> win32 = True, unicode_lower = (\<lambda>s. s) \<rparr>"

definition alice :: owner where
  "alice = (1000, 1000, ''alice'', ''staff'')"

definition example_disk :: disk where
  "example_disk =
     [ ''/proj/README.md'' \<mapsto> RegFile alice,
       ''/proj/src'' \<mapsto>
          Directory alice
            [ (''.gitignore'', RegFile alice),
              (''a.py'', RegFile alice),
              (''sub'', Directory alice [(''b.py'', RegFile alice)]) ],
       ''/work/g.txt'' \<mapsto> RegFile alice ]"

definition example_world :: world where
  "example_world =
     \<lparr> connections = [(0, proj_session), (1, work_session)], next_id = 2, constructed = [],
       disk = example_disk, calls = [], messages = [], printed = [], packed = [],
       mkstemp_count = 0 \<rparr>"

text \<open>An environment in which every remote call succeeds.\<close>

definition example_env :: env where
  "example_env =
     \<lparr> most = (\<lambda>ps. Inr ''/proj''), mkstemp_name = (\<lambda>n. ''/tmp/scp_0''),
       current_owner = alice, outcome = (\<lambda>t. None), extraction = (\<lambda>a b. ([], None)),
       task_cancel_all = (\<lambda>w. w) \<rparr>"

text \<open>
  A constructor that finds the mapping of \<^verbatim>\<open>/proj\<close> for the paths below it, and a registry
  that holds one other session.
\<close>

definition example_constructor :: "string \<Rightarrow> error + scpfolder" where
  "example_constructor arg =
     (if prefix ''/proj'' arg then Inr proj_session
      else Inl (ValueError ''Not within a mapped folder''))"

definition example_registry :: registry where
  "example_registry = \<lparr> connections = [(0, work_session)], next_id = 1, constructed = [] \<rparr>"


text \<open>
  An environment in which every remote call fails because the transport has lost its
  connection.
\<close>

definition disconnected_env :: env where
  "disconnected_env =
     example_env\<lparr>outcome := (\<lambda>t. Some (SCPNotConnectedError ''connection lost''))\<rparr>"

text \<open>
  An environment in which every remote call succeeds and the archive that comes from the
  remote host holds two files of the remote directory, \<^verbatim>\<open>README.md\<close> and \<^verbatim>\<open>.gitignore\<close>.
\<close>

definition remote_tree_env :: env where
  "remote_tree_env =
     example_env\<lparr>extraction :=
       (\<lambda>local_tmp local_dir.
          ([(local_dir @ ''/README.md'', RegFile alice),
            (local_dir @ ''/.gitignore'', RegFile alice)], None))\<rparr>"

section \<open>Properties of \<^verbatim>\<open>core/scpfolder.py\<close>\<close>

subsection \<open>Splitting and substrings\<close>

lemma split_sep_nonempty: "split_sep s p \<noteq> []"
  by (induction p) (auto split: list.splits)

lemma split_sep_hd_prefix: "split_sep s p = y # ys \<Longrightarrow> prefix y p"
  by (induction p arbitrary: y ys) (auto split: if_splits list.splits)

lemma split_sep_member_sublist: "x \<in> set (split_sep s p) \<Longrightarrow> sublist x p"
proof (induction p arbitrary: x)
  case Nil
  then show ?case by simp
next
  case (Cons c cs)
  show ?case
  proof (cases "c = s")
    case True
    with Cons.prems have "x = [] \<or> x \<in> set (split_sep s cs)" by auto
    then show ?thesis using Cons.IH by (auto intro: sublist_Cons_right[THEN iffD2])
  next
    case False
    obtain y ys where yys: "split_sep s cs = y # ys"
      using split_sep_nonempty[of s cs] by (cases "split_sep s cs") auto
    with False Cons.prems have "x = c # y \<or> x \<in> set ys" by auto
    then show ?thesis
    proof
      assume "x = c # y"
      moreover have "prefix y cs" using yys by (rule split_sep_hd_prefix)
      ultimately have "prefix x (c # cs)" by simp
      then show ?thesis by (rule prefix_imp_sublist)
    next
      assume "x \<in> set ys"
      then have "sublist x cs" using Cons.IH yys by simp
      then show ?thesis by (simp add: sublist_Cons_right)
    qed
  qed
qed

subsection \<open>Session lookup\<close>

lemma connection_loop_Some:
  "connection_loop q conns = Some c \<longleftrightarrow>
     (\<exists>pre post. conns = pre @ c # post \<and> prefix (root (snd c)) q
        \<and> (\<forall>d \<in> set pre. \<not> prefix (root (snd d)) q))"
proof (induction conns)
  case Nil
  then show ?case by simp
next
  case (Cons a conns)
  show ?case
  proof (cases "prefix (root (snd a)) q")
    case True
    have "(\<exists>pre post. a # conns = pre @ c # post \<and> prefix (root (snd c)) q
        \<and> (\<forall>d \<in> set pre. \<not> prefix (root (snd d)) q)) \<longleftrightarrow> a = c"
    proof
      assume "\<exists>pre post. a # conns = pre @ c # post \<and> prefix (root (snd c)) q
        \<and> (\<forall>d \<in> set pre. \<not> prefix (root (snd d)) q)"
      then obtain pre post where *: "a # conns = pre @ c # post"
        "\<forall>d \<in> set pre. \<not> prefix (root (snd d)) q" by blast
      show "a = c"
      proof (cases pre)
        case Nil
        with * show ?thesis by simp
      next
        case (Cons b bs)
        with * True show ?thesis by auto
      qed
    next
      assume "a = c"
      with True have "a # conns = [] @ c # conns \<and> prefix (root (snd c)) q
        \<and> (\<forall>d \<in> set []. \<not> prefix (root (snd d)) q)" by simp
      then show "\<exists>pre post. a # conns = pre @ c # post \<and> prefix (root (snd c)) q
        \<and> (\<forall>d \<in> set pre. \<not> prefix (root (snd d)) q)" by blast
    qed
    with True show ?thesis by auto
  next
    case False
    have "(\<exists>pre post. a # conns = pre @ c # post \<and> prefix (root (snd c)) q
        \<and> (\<forall>d \<in> set pre. \<not> prefix (root (snd d)) q)) \<longleftrightarrow>
          (\<exists>pre post. conns = pre @ c # post \<and> prefix (root (snd c)) q
        \<and> (\<forall>d \<in> set pre. \<not> prefix (root (snd d)) q))" (is "?L \<longleftrightarrow> ?R")
    proof
      assume ?L
      then obtain pre post where *: "a # conns = pre @ c # post" "prefix (root (snd c)) q"
        "\<forall>d \<in> set pre. \<not> prefix (root (snd d)) q" by blast
      show ?R
      proof (cases pre)
        case Nil
        with * False show ?thesis by auto
      next
        case (Cons b bs)
        with * have "conns = bs @ c # post \<and> prefix (root (snd c)) q
           \<and> (\<forall>d \<in> set bs. \<not> prefix (root (snd d)) q)" by auto
        then show ?thesis by blast
      qed
    next
      assume ?R
      then obtain pre post where *: "conns = pre @ c # post" "prefix (root (snd c)) q"
        "\<forall>d \<in> set pre. \<not> prefix (root (snd d)) q" by blast
      with False have "a # conns = (a # pre) @ c # post \<and> prefix (root (snd c)) q
           \<and> (\<forall>d \<in> set (a # pre). \<not> prefix (root (snd d)) q)" by auto
      then show ?L by blast
    qed
    with False Cons.IH show ?thesis by simp
  qed
qed

lemma is_connected_loop_iff:
  "is_connected_loop q conns \<longleftrightarrow> (\<exists>c \<in> set conns. prefix (root (snd c)) q)"
  by (induction conns) auto

lemma is_connected_loop_connection_loop:
  "is_connected_loop q conns \<longleftrightarrow> connection_loop q conns \<noteq> None"
  by (induction conns) auto

text \<open>
  Claim C8. Session lookup compares strings, not path components: \<^verbatim>\<open>connection(p)\<close>
  returns the first registered session whose root is a prefix of the characters of \<open>p\<close>,
  and raises when \<open>p\<close> is empty or no root is such a prefix; \<^verbatim>\<open>is_connected(p)\<close> holds
  exactly when some registered root is such a prefix. On Windows, and only there, it is
  \<^verbatim>\<open>p.lower()\<close> that is compared with the roots. A session rooted at \<^verbatim>\<open>/proj\<close> therefore
  answers for the path \<^verbatim>\<open>/project2\<close> on every platform, and for \<^verbatim>\<open>/Proj/Main.PY\<close> on
  Windows but not elsewhere.
\<close>

theorem connection_matches_string_prefix:
  "(connection pf conns p = Inr c \<longleftrightarrow>
      p \<noteq> [] \<and>
      (\<exists>pre post. conns = pre @ c # post
         \<and> prefix (root (snd c)) (if win32 pf then lower pf p else p)
         \<and> (\<forall>d \<in> set pre. \<not> prefix (root (snd d)) (if win32 pf then lower pf p else p))))
   \<and> (is_connected pf conns p \<longleftrightarrow>
      p \<noteq> [] \<and> (\<exists>c \<in> set conns. prefix (root (snd c)) (if win32 pf then lower pf p else p)))
   \<and> (root s = ''/proj'' \<longrightarrow>
        connection pf ((i, s) # conns) ''/project2'' = Inr (i, s)
        \<and> is_connected pf ((i, s) # conns) ''/project2'')
   \<and> lower pf ''/Proj/Main.PY'' = ''/proj/main.py''
   \<and> (win32 pf \<and> root s = ''/proj'' \<longrightarrow>
        connection pf ((i, s) # conns) ''/Proj/Main.PY'' = Inr (i, s)
        \<and> is_connected pf ((i, s) # conns) ''/Proj/Main.PY'')
   \<and> (\<not> win32 pf \<and> root s = ''/proj'' \<longrightarrow>
        connection pf [(i, s)] ''/Proj/Main.PY''
          = Inl (ScpNotConnectedError ''No SCP connection for /Proj/Main.PY!'')
        \<and> \<not> is_connected pf [(i, s)] ''/Proj/Main.PY'')"
proof -
  have A: "connection pf conns p = Inr c \<longleftrightarrow>
      p \<noteq> [] \<and>
      (\<exists>pre post. conns = pre @ c # post
         \<and> prefix (root (snd c)) (if win32 pf then lower pf p else p)
         \<and> (\<forall>d \<in> set pre. \<not> prefix (root (snd d)) (if win32 pf then lower pf p else p)))"
  proof (cases "p = []")
    case True
    then show ?thesis by (simp add: connection_def)
  next
    case False
    define q where "q = (if win32 pf then lower pf p else p)"
    have "connection pf conns p = Inr c \<longleftrightarrow> connection_loop q conns = Some c"
      using False unfolding connection_def q_def
      by (cases "connection_loop (if win32 pf then lower pf p else p) conns") simp_all
    then show ?thesis
      using False unfolding q_def[symmetric] by (simp add: connection_loop_Some)
  qed
  have B: "is_connected pf conns p \<longleftrightarrow>
      p \<noteq> [] \<and> (\<exists>c \<in> set conns. prefix (root (snd c)) (if win32 pf then lower pf p else p))"
    unfolding is_connected_def by (simp add: is_connected_loop_iff)
  have C: "root s = ''/proj'' \<longrightarrow>
        connection pf ((i, s) # conns) ''/project2'' = Inr (i, s)
        \<and> is_connected pf ((i, s) # conns) ''/project2''"
    by (simp add: connection_def is_connected_def lower_def lower_char_def)
  have L: "lower pf ''/Proj/Main.PY'' = ''/proj/main.py''"
    by (simp add: lower_def lower_char_def)
  have D: "win32 pf \<and> root s = ''/proj'' \<longrightarrow>
        connection pf ((i, s) # conns) ''/Proj/Main.PY'' = Inr (i, s)
        \<and> is_connected pf ((i, s) # conns) ''/Proj/Main.PY''"
    by (simp add: connection_def is_connected_def L)
  have E: "\<not> win32 pf \<and> root s = ''/proj'' \<longrightarrow>
        connection pf [(i, s)] ''/Proj/Main.PY''
          = Inl (ScpNotConnectedError ''No SCP connection for /Proj/Main.PY!'')
        \<and> \<not> is_connected pf [(i, s)] ''/Proj/Main.PY''"
    by (simp add: connection_def is_connected_def)
  from A B C L D E show ?thesis by (intro conjI)
qed

theorem connection_matches_string_prefix_witness:
  "root proj_session = ''/proj''
   \<and> connection (posixpath ''/'') [(0, proj_session), (1, work_session)] ''/project2''
       = Inr (0, proj_session)
   \<and> is_connected (posixpath ''/'') [(0, proj_session), (1, work_session)] ''/project2''
   \<and> win32 windows
   \<and> connection windows [(0, proj_session), (1, work_session)] ''/Proj/Main.PY''
       = Inr (0, proj_session)
   \<and> is_connected windows [(0, proj_session), (1, work_session)] ''/Proj/Main.PY''
   \<and> \<not> win32 (posixpath ''/'')
   \<and> connection (posixpath ''/'') [(0, proj_session)] ''/Proj/Main.PY''
       = Inl (ScpNotConnectedError ''No SCP connection for /Proj/Main.PY!'')
   \<and> \<not> is_connected (posixpath ''/'') [(0, proj_session)] ''/Proj/Main.PY''"
proof -
  have r: "root proj_session = ''/proj''" by (simp add: proj_session_def)
  have w: "win32 windows" "\<not> win32 (posixpath ''/'')"
    by (simp_all add: windows_def posixpath_def)
  from connection_matches_string_prefix
    [where pf = "posixpath ''/''" and s = proj_session and i = 0 and conns = "[(1, work_session)]"] r w
  have a: "connection (posixpath ''/'') [(0, proj_session), (1, work_session)] ''/project2''
       = Inr (0, proj_session)
     \<and> is_connected (posixpath ''/'') [(0, proj_session), (1, work_session)] ''/project2''
     \<and> connection (posixpath ''/'') [(0, proj_session)] ''/Proj/Main.PY''
       = Inl (ScpNotConnectedError ''No SCP connection for /Proj/Main.PY!'')
     \<and> \<not> is_connected (posixpath ''/'') [(0, proj_session)] ''/Proj/Main.PY''"
    by blast
  from connection_matches_string_prefix
    [where pf = windows and s = proj_session and i = 0 and conns = "[(1, work_session)]"] r w
  have b: "connection windows [(0, proj_session), (1, work_session)] ''/Proj/Main.PY''
       = Inr (0, proj_session)
     \<and> is_connected windows [(0, proj_session), (1, work_session)] ''/Proj/Main.PY''"
    by blast
  from r w a b show ?thesis by blast
qed

subsection \<open>Remote paths\<close>

text \<open>
  Claim C1, as amended. The root of the mapping is translated to the configured remote
  path as it stands. For every other local path, a remote path that \<^verbatim>\<open>to_remote_path\<close>
  returns has no two consecutive dots, so none of its segments is \<^verbatim>\<open>..\<close>; and whenever
  appending the relative path gives a path with a \<^verbatim>\<open>..\<close> segment, the call raises
  \<^verbatim>\<open>ValueError("Invalid path!")\<close> and returns no path. This holds for every
  \<^verbatim>\<open>os.path\<close>.
\<close>

theorem to_remote_path_no_traversal:
  "(to_remote_path pf self (root self) = Inr (remote_path self))
   \<and> (p \<noteq> root self \<longrightarrow>
        (\<forall>r. to_remote_path pf self p = Inr r \<longrightarrow>
              \<not> sublist ''..'' r \<and> ''..'' \<notin> set (segments r))
        \<and> (\<forall>rel. relpath pf p (root self) = Inr rel
               \<and> ''..'' \<in> set (segments (replace_backslash (join pf (remote_path self) rel)))
               \<longrightarrow> to_remote_path pf self p = Inl (ValueError ''Invalid path!'')))"
proof (intro conjI impI allI)
  show "to_remote_path pf self (root self) = Inr (remote_path self)"
    by (simp add: to_remote_path_def)
next
  fix r
  assume ne: "p \<noteq> root self" and r: "to_remote_path pf self p = Inr r"
  show "\<not> sublist ''..'' r"
    using ne r unfolding to_remote_path_def
    by (auto simp: Let_def split: sum.splits if_splits)
  then show "''..'' \<notin> set (segments r)"
    unfolding segments_def using split_sep_member_sublist by blast
next
  fix rel
  assume ne: "p \<noteq> root self"
    and rel: "relpath pf p (root self) = Inr rel
       \<and> ''..'' \<in> set (segments (replace_backslash (join pf (remote_path self) rel)))"
  then have "sublist ''..'' (replace_backslash (join pf (remote_path self) rel))"
    unfolding segments_def using split_sep_member_sublist by blast
  with ne rel show "to_remote_path pf self p = Inl (ValueError ''Invalid path!'')"
    by (simp add: to_remote_path_def)
qed

lemmas posix_defs = posixpath_def posix_relpath_def posix_abspath_def posix_normpath_def
  posix_join_def posix_basename_def replace_backslash_def backslash_def suffix_def

theorem to_remote_path_no_traversal_witness:
  "''/proj/src/a.py'' \<noteq> root proj_session
   \<and> to_remote_path (posixpath ''/'') proj_session ''/proj/src/a.py''
        = Inr ''/home/guest/proj/src/a.py''
   \<and> \<not> sublist ''..'' ''/home/guest/proj/src/a.py''
   \<and> ''..'' \<notin> set (segments ''/home/guest/proj/src/a.py'')
   \<and> ''/etc/passwd'' \<noteq> root proj_session
   \<and> relpath (posixpath ''/'') ''/etc/passwd'' (root proj_session) = Inr ''../etc/passwd''
   \<and> ''..'' \<in> set (segments (replace_backslash
          (join (posixpath ''/'') (remote_path proj_session) ''../etc/passwd'')))
   \<and> to_remote_path (posixpath ''/'') proj_session ''/etc/passwd''
        = Inl (ValueError ''Invalid path!'')"
proof -
  have a: "to_remote_path (posixpath ''/'') proj_session ''/proj/src/a.py''
        = Inr ''/home/guest/proj/src/a.py''"
    by (simp add: to_remote_path_def proj_session_def posix_defs sublist_Cons_right)
  have b: "''/proj/src/a.py'' \<noteq> root proj_session" "''/etc/passwd'' \<noteq> root proj_session"
    by (simp_all add: proj_session_def)
  have c: "relpath (posixpath ''/'') ''/etc/passwd'' (root proj_session) = Inr ''../etc/passwd''"
    by (simp add: proj_session_def posix_defs)
  have d: "''..'' \<in> set (segments (replace_backslash
          (join (posixpath ''/'') (remote_path proj_session) ''../etc/passwd'')))"
    by (simp add: proj_session_def posix_defs segments_def)
  from to_remote_path_no_traversal[of "posixpath ''/''" proj_session "''/proj/src/a.py''"] a b
  have e: "\<not> sublist ''..'' ''/home/guest/proj/src/a.py''
     \<and> ''..'' \<notin> set (segments ''/home/guest/proj/src/a.py'')" by blast
  from to_remote_path_no_traversal[of "posixpath ''/''" proj_session "''/etc/passwd''"] b c d
  have f: "to_remote_path (posixpath ''/'') proj_session ''/etc/passwd''
        = Inl (ValueError ''Invalid path!'')" by blast
  from a b c d e f show ?thesis by blast
qed

text \<open>
  The claim as it was stated fails at the root of a mapping whose configured remote path
  has a \<^verbatim>\<open>..\<close> segment: the path is returned as it is.
\<close>

theorem to_remote_path_root_counterexample:
  "to_remote_path (posixpath ''/'') dotdot_session (root dotdot_session) = Inr ''/srv/../etc''
   \<and> ''..'' \<in> set (segments ''/srv/../etc'')"
  by (simp add: to_remote_path_def dotdot_session_def segments_def)

subsection \<open>\<^verbatim>\<open>connect\<close>\<close>

lemma connection_is_connected:
  "is_connected pf conns p \<longleftrightarrow> (\<exists>c. connection pf conns p = Inr c)"
  unfolding is_connected_def connection_def
  by (auto simp: is_connected_loop_connection_loop split: option.splits)

lemma connection_loop_mem: "connection_loop q conns = Some c \<Longrightarrow> c \<in> set conns"
  by (induction conns) (auto split: if_splits)

lemma connection_loop_append_None:
  "connection_loop q conns = None \<Longrightarrow>
     connection_loop q (conns @ [c]) = (if prefix (root (snd c)) q then Some c else None)"
  by (induction conns) (auto split: if_splits)

lemma connection_raises: "connection pf conns p = Inl e \<Longrightarrow> \<exists>msg. e = ScpNotConnectedError msg"
  unfolding connection_def by (auto split: option.splits if_splits)

text \<open>
  Claim C6. \<^verbatim>\<open>connect\<close> is idempotent. For a path that has an active session,
  \<^verbatim>\<open>connect(path)\<close> leaves the registry as it is (no session is constructed, none is
  added) and returns a session of the registry; and when a call of \<^verbatim>\<open>connect(path)\<close> has
  returned a session and the path has an active session afterwards, a second call
  leaves the registry as it is and returns the same session object.
\<close>

theorem connect_idempotent:
  "(is_connected pf (connections reg) p \<longrightarrow>
      (\<exists>c \<in> set (connections reg). connect pf SCPFolder reg p = (reg, Inr (Some c))))
   \<and> (connect pf SCPFolder reg p = (reg1, Inr (Some c)) \<and> is_connected pf (connections reg1) p
        \<longrightarrow> connect pf SCPFolder reg1 p = (reg1, Inr (Some c)))"
proof (intro conjI impI)
  assume "is_connected pf (connections reg) p"
  then obtain c where c: "connection pf (connections reg) p = Inr c"
    by (auto simp: connection_is_connected)
  then have "c \<in> set (connections reg)"
    unfolding connection_def by (auto split: option.splits if_splits dest: connection_loop_mem)
  with c show "\<exists>c \<in> set (connections reg). connect pf SCPFolder reg p = (reg, Inr (Some c))"
    by (auto simp: connect_def)
next
  assume a: "connect pf SCPFolder reg p = (reg1, Inr (Some c)) \<and> is_connected pf (connections reg1) p"
  define q where "q = (if win32 pf then lower pf p else p)"
  show "connect pf SCPFolder reg1 p = (reg1, Inr (Some c))"
  proof (cases "connection pf (connections reg) p")
    case (Inr c')
    with a show ?thesis by (auto simp: connect_def)
  next
    case (Inl e)
    then obtain msg where e: "e = ScpNotConnectedError msg" using connection_raises by blast
    from a have pne: "p \<noteq> []" by (auto simp: is_connected_def split: if_splits)
    from Inl pne have none: "connection_loop q (connections reg) = None"
      unfolding connection_def q_def by (auto split: option.splits)
    have unf: "connect pf SCPFolder reg p =
        (case SCPFolder q of
           Inr folder \<Rightarrow>
             (reg\<lparr>constructed := constructed reg @ [q],
                  connections := connections reg @ [(next_id reg, folder)],
                  next_id := Suc (next_id reg)\<rparr>, Inr (Some (next_id reg, folder)))
         | Inl e' \<Rightarrow> (reg\<lparr>constructed := constructed reg @ [q]\<rparr>, Inr None))"
      unfolding connect_def q_def Inl e by (simp add: Let_def split: sum.splits)
    obtain folder where f: "SCPFolder q = Inr folder"
      using a unf by (cases "SCPFolder q") auto
    have reg1: "reg1 = reg\<lparr>constructed := constructed reg @ [q],
                   connections := connections reg @ [(next_id reg, folder)],
                   next_id := Suc (next_id reg)\<rparr>"
      and c: "c = (next_id reg, folder)"
      using a unf f by auto
    from a pne have "is_connected_loop q (connections reg1)"
      unfolding is_connected_def q_def by simp
    then have "connection_loop q (connections reg @ [c]) \<noteq> None"
      using reg1 c by (simp add: is_connected_loop_connection_loop)
    with none have "connection_loop q (connections reg @ [c]) = Some c"
      by (simp add: connection_loop_append_None split: if_splits)
    then have "connection pf (connections reg1) p = Inr c"
      using pne reg1 c unfolding connection_def q_def[symmetric] by simp
    then show ?thesis by (simp add: connect_def)
  qed
qed

theorem connect_idempotent_witness:
  "connect (posixpath ''/'') example_constructor example_registry ''/proj/a.txt''
     = (\<lparr> connections = [(0, work_session), (1, proj_session)], next_id = 2,
           constructed = [''/proj/a.txt''] \<rparr>, Inr (Some (1, proj_session)))
   \<and> is_connected (posixpath ''/'') [(0, work_session), (1, proj_session)] ''/proj/a.txt''
   \<and> connect (posixpath ''/'') example_constructor
        \<lparr> connections = [(0, work_session), (1, proj_session)], next_id = 2,
          constructed = [''/proj/a.txt''] \<rparr> ''/proj/a.txt''
     = (\<lparr> connections = [(0, work_session), (1, proj_session)], next_id = 2,
           constructed = [''/proj/a.txt''] \<rparr>, Inr (Some (1, proj_session)))"
proof -
  have a: "connect (posixpath ''/'') example_constructor example_registry ''/proj/a.txt''
     = (\<lparr> connections = [(0, work_session), (1, proj_session)], next_id = 2,
           constructed = [''/proj/a.txt''] \<rparr>, Inr (Some (1, proj_session)))"
    by (simp add: connect_def connection_def example_constructor_def example_registry_def
          posixpath_def work_session_def proj_session_def Let_def numeral_2_eq_2)
  have b: "is_connected (posixpath ''/'') [(0, work_session), (1, proj_session)] ''/proj/a.txt''"
    by (simp add: is_connected_def posixpath_def work_session_def proj_session_def)
  from connect_idempotent
    [of "posixpath ''/''" example_registry "''/proj/a.txt''" example_constructor
        "\<lparr> connections = [(0, work_session), (1, proj_session)], next_id = 2,
           constructed = [''/proj/a.txt''] \<rparr>" "(1, proj_session)"] a b
  show ?thesis by simp
qed

section \<open>Properties of \<^verbatim>\<open>commands.py\<close>\<close>

subsection \<open>Statements and blocks\<close>

lemmas stmt_defs = seq_def try_except_def try_finally_def suppress_def lift_def return_def
  raise_def status_message_def print_def mkstemp_def os_remove_def scp_call_def
  extractall_def pack_def

lemma plink_commands_append [simp]:
  "plink_commands (xs @ ys) = plink_commands xs @ plink_commands ys"
  by (induction xs rule: plink_commands.induct) auto

lemma fst_try_finally: "fst (try_finally m fin w) = fst (fin (fst (m w)))"
  by (simp add: try_finally_def split: prod.splits sum.splits)


lemma try_except_on_command_error:
  "try_except m (on_command_error failure) w =
     (case m w of
        (w', Inl (SCPCommandError msg)) \<Rightarrow>
          (w'\<lparr>printed := printed w' @ [strip msg], messages := messages w' @ [failure]\<rparr>, Inr ())
      | (w', r) \<Rightarrow> (w', r))"
  by (simp add: try_except_def on_command_error_def seq_def print_def status_message_def raise_def
        split: prod.splits sum.splits error.splits)

lemma handled_frame:
  "calls (fst (try_except m (on_command_error failure) w)) = calls (fst (m w))"
  "disk (fst (try_except m (on_command_error failure) w)) = disk (fst (m w))"
  "packed (fst (try_except m (on_command_error failure) w)) = packed (fst (m w))"
  "mkstemp_count (fst (try_except m (on_command_error failure) w)) = mkstemp_count (fst (m w))"
  by (simp_all add: try_except_on_command_error split: prod.splits sum.splits error.splits)

lemma handled_result:
  "snd (try_except m (on_command_error failure) w) =
     (case snd (m w) of Inl (SCPCommandError msg) \<Rightarrow> Inr () | r \<Rightarrow> r)"
  by (simp add: try_except_on_command_error split: prod.splits sum.splits error.splits)

lemma gettree_try_plinks:
  "plink_commands (calls (fst (gettree_try pf E conn local_dir remote_dir local_tmp remote_tmp w)))
     = plink_commands (calls w) @ [pack_command remote_dir remote_tmp]"
  unfolding gettree_try_def stmt_defs
  by (simp add: Let_def split: option.splits prod.splits)

lemma gettree_finally_removes:
  "local_tmp \<notin> dom (disk (fst (gettree_finally E conn remote_tmp local_tmp w)))"
  unfolding gettree_finally_def stmt_defs
  by (simp add: Let_def split: option.splits)


lemma gettree_finally_plinks:
  "plink_commands (calls (fst (gettree_finally E conn remote_tmp local_tmp w)))
     = plink_commands (calls w)"
  unfolding gettree_finally_def stmt_defs
  by (simp add: Let_def split: option.splits)

lemma puttree_try_plinks:
  "plink_commands (calls (fst (puttree_try pf E conn local_dir remote_dir local_tmp w)))
     = plink_commands (calls w)
       @ (if outcome E (calls w @ [(fst conn, Putfile local_tmp (''/tmp/'' @ basename pf local_tmp))]) = None
          then [unpack_command remote_dir (''/tmp/'' @ basename pf local_tmp)] else [])"
  unfolding puttree_try_def stmt_defs
  by (simp add: Let_def split: option.splits)

lemma puttree_try_frame:
  "disk (fst (puttree_try pf E conn local_dir remote_dir local_tmp w)) = disk w"
  "packed (fst (puttree_try pf E conn local_dir remote_dir local_tmp w)) = packed w"
  "mkstemp_count (fst (puttree_try pf E conn local_dir remote_dir local_tmp w)) = mkstemp_count w"
  unfolding puttree_try_def stmt_defs
  by (simp_all add: Let_def split: option.splits)

text \<open>\<^verbatim>\<open>gettree\<close> and \<^verbatim>\<open>puttree\<close> once the common root and the remote root are found.\<close>

lemma gettree_unfold:
  "most E ps = Inr local_dir \<Longrightarrow> to_remote_path pf (snd conn) local_dir = Inr remote_dir \<Longrightarrow>
   gettree pf E conn ps w =
     try_finally
       (try_except
          (gettree_try pf E conn local_dir remote_dir (mkstemp_name E (mkstemp_count w))
             (''/tmp/'' @ basename pf (mkstemp_name E (mkstemp_count w))))
          (on_command_error (''SCP: Failed to download '' @ local_dir @ ''!'')))
       (gettree_finally E conn (''/tmp/'' @ basename pf (mkstemp_name E (mkstemp_count w)))
          (mkstemp_name E (mkstemp_count w)))
       (w\<lparr>disk := (disk w)(mkstemp_name E (mkstemp_count w) \<mapsto> RegFile (current_owner E)),
          mkstemp_count := Suc (mkstemp_count w)\<rparr>)"
  by (simp add: gettree_def seq_def lift_def mkstemp_def Let_def)

lemma puttree_unfold:
  "most E ps = Inr local_dir \<Longrightarrow> to_remote_path pf (snd conn) local_dir = Inr remote_dir \<Longrightarrow>
   puttree pf E conn ps w =
     (case add_paths pf ((disk w)(mkstemp_name E (mkstemp_count w) \<mapsto> RegFile (current_owner E)))
             local_dir ps of
        Inl e \<Rightarrow>
          (w\<lparr>disk := (disk w)(mkstemp_name E (mkstemp_count w) \<mapsto> RegFile (current_owner E)),
             mkstemp_count := Suc (mkstemp_count w),
             messages := messages w @ [''SCP: preparing upload ...'']\<rparr>, Inl e)
      | Inr members \<Rightarrow>
          try_finally
            (try_except
               (puttree_try pf E conn local_dir remote_dir (mkstemp_name E (mkstemp_count w)))
               (on_command_error (''SCP: Failed to upload '' @ local_dir @ ''!'')))
            (os_remove (mkstemp_name E (mkstemp_count w)))
            (w\<lparr>disk := (disk w)(mkstemp_name E (mkstemp_count w) \<mapsto> RegFile (current_owner E)),
               mkstemp_count := Suc (mkstemp_count w),
               messages := messages w @ [''SCP: preparing upload ...''],
               packed := packed w @ [(mkstemp_name E (mkstemp_count w), members)]\<rparr>))"
  by (simp add: puttree_def seq_def lift_def mkstemp_def status_message_def pack_def Let_def
        split: sum.splits)

lemma tree_early_failure:
  "(\<forall>local_dir. most E ps \<noteq> Inr local_dir
       \<or> (\<forall>remote_dir. to_remote_path pf (snd conn) local_dir \<noteq> Inr remote_dir)) \<Longrightarrow>
   gettree pf E conn ps w = puttree pf E conn ps w \<and> fst (gettree pf E conn ps w) = w"
  unfolding gettree_def puttree_def seq_def lift_def
  by (auto split: sum.splits)

subsection \<open>The examples\<close>

text \<open>What the functions compute on the example data.\<close>

lemmas example_defs = example_world_def example_env_def example_disk_def alice_def
  proj_session_def work_session_def

lemma example_to_remote_path:
  "to_remote_path (posixpath ''/'') proj_session ''/proj'' = Inr ''/home/guest/proj''"
  "to_remote_path (posixpath ''/'') proj_session ''/proj/README.md'' = Inr ''/home/guest/proj/README.md''"
  "to_remote_path (posixpath ''/'') work_session ''/work/g.txt'' = Inr ''/srv/work/g.txt''"
  by (simp_all add: to_remote_path_def proj_session_def work_session_def posix_defs sublist_Cons_right)

lemma example_isfile:
  "isfile (disk example_world) ''/proj/README.md''"
  "\<not> isfile (disk example_world) ''/proj/src''"
  "isfile (disk example_world) ''/work/g.txt''"
  by (simp_all add: isfile_def example_defs)

lemma example_add_paths:
  "add_paths (posixpath ''/'') example_disk ''/proj'' [''/proj/src'', ''/proj/README.md'']
     = Inr [ \<lparr>path = ''src'', isdir = True, uid = 0, gid = 0, uname = ''root'', gname = ''root''\<rparr>,
             \<lparr>path = ''src/a.py'', isdir = False, uid = 0, gid = 0, uname = ''root'', gname = ''root''\<rparr>,
             \<lparr>path = ''src/sub'', isdir = True, uid = 0, gid = 0, uname = ''root'', gname = ''root''\<rparr>,
             \<lparr>path = ''src/sub/b.py'', isdir = False, uid = 0, gid = 0, uname = ''root'', gname = ''root''\<rparr>,
             \<lparr>path = ''README.md'', isdir = False, uid = 0, gid = 0, uname = ''root'', gname = ''root''\<rparr> ]"
  by (simp add: example_disk_def alice_def posixpath_def posix_relpath_def posix_abspath_def
        posix_normpath_def posix_join_def suffix_def gettarinfo_def tarfilter_def
        sublist_Cons_right)

lemma example_add_paths_tmp:
  "add_paths (posixpath ''/'') ((disk example_world)(''/tmp/scp_0'' \<mapsto> RegFile alice)) ''/proj''
      [''/proj/src'', ''/proj/README.md'']
     = Inr [ \<lparr>path = ''src'', isdir = True, uid = 0, gid = 0, uname = ''root'', gname = ''root''\<rparr>,
             \<lparr>path = ''src/a.py'', isdir = False, uid = 0, gid = 0, uname = ''root'', gname = ''root''\<rparr>,
             \<lparr>path = ''src/sub'', isdir = True, uid = 0, gid = 0, uname = ''root'', gname = ''root''\<rparr>,
             \<lparr>path = ''src/sub/b.py'', isdir = False, uid = 0, gid = 0, uname = ''root'', gname = ''root''\<rparr>,
             \<lparr>path = ''README.md'', isdir = False, uid = 0, gid = 0, uname = ''root'', gname = ''root''\<rparr> ]"
  by (simp add: example_defs posixpath_def posix_relpath_def posix_abspath_def
        posix_normpath_def posix_join_def suffix_def gettarinfo_def tarfilter_def
        sublist_Cons_right)

lemma example_add_paths_gone:
  "add_paths (posixpath ''/'') ((disk example_world)(''/tmp/scp_0'' \<mapsto> RegFile alice)) ''/proj''
      [''/proj/README.md'', ''/proj/gone.txt'']
     = Inl (OSError ''No such file or directory: /proj/gone.txt'')"
  by (simp add: example_defs posixpath_def posix_relpath_def posix_abspath_def
        posix_normpath_def posix_join_def suffix_def gettarinfo_def tarfilter_def
        sublist_Cons_right)

lemma example_group_paths:
  "group_paths (posixpath ''/'') [(0, proj_session), (1, work_session)] []
     [''/proj/src/.gitignore'', ''/proj/README.md'']
   = Inr [((0, proj_session), [''/proj/README.md''])]"
  by (simp add: connection_def posixpath_def proj_session_def work_session_def
        sublist_Cons_right)





lemma disconnected_puttree:
  "puttree (posixpath ''/'') disconnected_env (0, proj_session) [''/proj/src'', ''/proj/README.md'']
         example_world
   = (example_world
      \<lparr> calls := [(0, Putfile ''/tmp/scp_0'' ''/tmp/scp_0'')],
        messages := [''SCP: preparing upload ...''],
        packed := [(''/tmp/scp_0'',
           [ \<lparr>path = ''src'', isdir = True, uid = 0, gid = 0, uname = ''root'', gname = ''root''\<rparr>,
             \<lparr>path = ''src/a.py'', isdir = False, uid = 0, gid = 0, uname = ''root'', gname = ''root''\<rparr>,
             \<lparr>path = ''src/sub'', isdir = True, uid = 0, gid = 0, uname = ''root'', gname = ''root''\<rparr>,
             \<lparr>path = ''src/sub/b.py'', isdir = False, uid = 0, gid = 0, uname = ''root'', gname = ''root''\<rparr>,
             \<lparr>path = ''README.md'', isdir = False, uid = 0, gid = 0, uname = ''root'', gname = ''root''\<rparr> ])],
        mkstemp_count := 1 \<rparr>,
      Inl (SCPNotConnectedError ''connection lost''))"
proof -
  have a: "\<And>ps. most disconnected_env ps = Inr ''/proj''"
    "\<And>n. mkstemp_name disconnected_env n = ''/tmp/scp_0''"
    "current_owner disconnected_env = alice"
    "\<And>t. outcome disconnected_env t = Some (SCPNotConnectedError ''connection lost'')"
    by (simp_all add: disconnected_env_def example_env_def)
  have b: "to_remote_path (posixpath ''/'') (snd (0::nat, proj_session)) ''/proj'' = Inr ''/home/guest/proj''"
    using example_to_remote_path by simp
  have c: "calls example_world = []" "messages example_world = []" "printed example_world = []"
    "packed example_world = []" "mkstemp_count example_world = 0"
    by (simp_all add: example_world_def)
  have d: "basename (posixpath ''/'') ''/tmp/scp_0'' = ''scp_0''"
    by (simp add: posixpath_def posix_basename_def)
  show ?thesis
    by (simp add: puttree_unfold[OF a(1) b] a example_add_paths_tmp
          try_except_on_command_error try_finally_def puttree_try_def seq_def scp_call_def
          os_remove_def c d Let_def del: add_paths.simps)
       (simp add: example_world_def example_disk_def fun_eq_iff)
qed


lemma example_groups_gitignore:
  "group_paths (posixpath ''/'') (connections example_world) []
      [''/proj/src'', ''/proj/README.md'', ''/proj/.gitignore'']
   = Inr [((0, proj_session), [''/proj/src'', ''/proj/README.md''])]"
  by (simp add: example_defs connection_def posixpath_def sublist_Cons_right)

lemma remote_tree_gettree:
  "gettree (posixpath ''/'') remote_tree_env (0, proj_session) [''/proj/src'', ''/proj/README.md'']
      example_world
   = (example_world
        \<lparr> disk := (disk example_world)(''/proj/README.md'' \<mapsto> RegFile alice,
                                        ''/proj/.gitignore'' \<mapsto> RegFile alice),
          calls := [(0, Plink ''tar -C /home/guest/proj -cf /tmp/scp_0 .''),
                    (0, Getfile ''/tmp/scp_0'' ''/tmp/scp_0''),
                    (0, Remove ''/tmp/scp_0'')],
          messages := [''SCP: preparing download ...'', ''SCP: extracting ...'',
                       ''SCP: Downloaded /proj!''],
          mkstemp_count := 1 \<rparr>, Inr ())"
proof -
  have a: "\<And>ps. most remote_tree_env ps = Inr ''/proj''"
    "\<And>n. mkstemp_name remote_tree_env n = ''/tmp/scp_0''"
    "current_owner remote_tree_env = alice"
    "\<And>t. outcome remote_tree_env t = None"
    "\<And>x y. extraction remote_tree_env x y
        = ([(y @ ''/README.md'', RegFile alice), (y @ ''/.gitignore'', RegFile alice)], None)"
    by (simp_all add: remote_tree_env_def example_env_def)
  have b: "to_remote_path (posixpath ''/'') (snd (0::nat, proj_session)) ''/proj'' = Inr ''/home/guest/proj''"
    using example_to_remote_path by simp
  have c: "calls example_world = []" "messages example_world = []" "printed example_world = []"
    "packed example_world = []" "mkstemp_count example_world = 0"
    by (simp_all add: example_world_def)
  have d: "basename (posixpath ''/'') ''/tmp/scp_0'' = ''scp_0''"
    by (simp add: posixpath_def posix_basename_def)
  show ?thesis
    by (simp add: gettree_unfold[OF a(1) b] a try_except_on_command_error try_finally_def
          gettree_try_def gettree_finally_def suppress_def try_except_def return_def
          seq_def scp_call_def status_message_def extractall_def pack_command_def
          os_remove_def c d Let_def)
       (simp add: example_world_def example_disk_def fun_eq_iff)
qed

subsection \<open>Packing\<close>

lemma tarfilter_None: "sublist ''.scp'' (path ti) \<or> sublist ''.git'' (path ti) \<Longrightarrow> tarfilter ti = None"
  by (auto simp: tarfilter_def)

lemma tarfilter_Some:
  "tarfilter ti = Some ti' \<Longrightarrow>
     \<not> sublist ''.scp'' (path ti') \<and> \<not> sublist ''.git'' (path ti')
     \<and> uid ti' = 0 \<and> gid ti' = 0 \<and> uname ti' = ''root'' \<and> gname ti' = ''root''
     \<and> path ti' = path ti \<and> isdir ti' = isdir ti"
  by (auto simp: tarfilter_def split: if_splits)

lemma tar_add_filtered:
  "(\<And>t t'. filt t = Some t' \<Longrightarrow> P t') \<Longrightarrow> ti \<in> set (tar_add pf filt arcname node) \<Longrightarrow> P ti"
proof (induction pf filt arcname node rule: tar_add.induct)
  case (1 pf filt arcname ow)
  then show ?case by (cases "filt (gettarinfo pf arcname False ow)") auto
next
  case (2 pf filt arcname ow entries)
  show ?case
  proof (cases "filt (gettarinfo pf arcname True ow)")
    case None
    with "2.prems" show ?thesis by simp
  next
    case (Some t)
    with "2.prems"(2) have "ti = t \<or> (\<exists>f entry. (f, entry) \<in> set entries
        \<and> ti \<in> set (tar_add pf filt (join pf arcname f) entry))"
      by auto
    then show ?thesis
    proof
      assume "ti = t"
      with Some "2.prems"(1) show ?thesis by blast
    next
      assume "\<exists>f entry. (f, entry) \<in> set entries
        \<and> ti \<in> set (tar_add pf filt (join pf arcname f) entry)"
      then obtain f entry where "(f, entry) \<in> set entries"
        "ti \<in> set (tar_add pf filt (join pf arcname f) entry)" by blast
      then show ?thesis using "2.IH"[OF Some, of "(f, entry)" f entry] "2.prems"(1) by simp
    qed
  qed
qed

lemma tar_add_members:
  "ti \<in> set (tar_add pf tarfilter arcname node) \<Longrightarrow>
     \<not> sublist ''.scp'' (path ti) \<and> \<not> sublist ''.git'' (path ti)
     \<and> uid ti = 0 \<and> gid ti = 0 \<and> uname ti = ''root'' \<and> gname ti = ''root''"
  by (rule tar_add_filtered[where filt = tarfilter]) (auto dest: tarfilter_Some)

lemma add_paths_members:
  "add_paths pf d local_dir ps = Inr members \<Longrightarrow> ti \<in> set members \<Longrightarrow>
     \<not> sublist ''.scp'' (path ti) \<and> \<not> sublist ''.git'' (path ti)
     \<and> uid ti = 0 \<and> gid ti = 0 \<and> uname ti = ''root'' \<and> gname ti = ''root''"
proof (induction ps arbitrary: members)
  case Nil
  then show ?case by simp
next
  case (Cons p ps)
  from Cons.prems(1) obtain arcname node rest where
    "members = tar_add pf tarfilter arcname node @ rest" "add_paths pf d local_dir ps = Inr rest"
    by (auto split: sum.splits option.splits)
  with Cons.prems(2) Cons.IH show ?case using tar_add_members by fastforce
qed

lemma puttree_packed:
  "packed (fst (puttree pf E conn ps w)) = packed w
   \<or> (\<exists>local_dir members.
         most E ps = Inr local_dir
         \<and> add_paths pf ((disk w)(mkstemp_name E (mkstemp_count w) \<mapsto> RegFile (current_owner E)))
               local_dir ps = Inr members
         \<and> packed (fst (puttree pf E conn ps w))
             = packed w @ [(mkstemp_name E (mkstemp_count w), members)])"
proof (cases "\<exists>local_dir remote_dir. most E ps = Inr local_dir
                \<and> to_remote_path pf (snd conn) local_dir = Inr remote_dir")
  case False
  then have "fst (puttree pf E conn ps w) = w"
    using tree_early_failure[of E ps pf conn w] by auto
  then show ?thesis by simp
next
  case True
  then obtain local_dir remote_dir where ok: "most E ps = Inr local_dir"
    "to_remote_path pf (snd conn) local_dir = Inr remote_dir" by blast
  show ?thesis
  proof (cases "add_paths pf ((disk w)(mkstemp_name E (mkstemp_count w) \<mapsto> RegFile (current_owner E)))
             local_dir ps")
    case (Inl e)
    then show ?thesis by (simp add: puttree_unfold[OF ok])
  next
    case (Inr members)
    then have "packed (fst (puttree pf E conn ps w))
             = packed w @ [(mkstemp_name E (mkstemp_count w), members)]"
      by (simp add: puttree_unfold[OF ok] fst_try_finally os_remove_def handled_frame
            puttree_try_frame)
    with ok Inr show ?thesis by blast
  qed
qed

text \<open>
  Claim C7. While the upload archive is packed, the filter rejects every entry whose
  archive path contains \<^verbatim>\<open>.scp\<close> or \<^verbatim>\<open>.git\<close>; so no member of the archive has a path with
  a mapping-declaration file name or a version-control directory among its components,
  and every member has user and group id 0 and user and group name \<^verbatim>\<open>root\<close>. This
  holds for the members that the packing loop produces, and for every archive that
  \<^verbatim>\<open>puttree\<close> writes.
\<close>

theorem upload_archive_members_filtered:
  "(sublist ''.scp'' (path t) \<or> sublist ''.git'' (path t) \<longrightarrow> tarfilter t = None)
   \<and> (add_paths pf d local_dir ps = Inr members \<and> ti \<in> set members \<longrightarrow>
        ''.scp'' \<notin> set (segments (path ti)) \<and> ''.git'' \<notin> set (segments (path ti))
        \<and> \<not> sublist ''.scp'' (path ti) \<and> \<not> sublist ''.git'' (path ti)
        \<and> uid ti = 0 \<and> gid ti = 0 \<and> uname ti = ''root'' \<and> gname ti = ''root'')
   \<and> (a \<in> set (packed (fst (puttree pf E conn ps w))) \<and> a \<notin> set (packed w) \<and> ti \<in> set (snd a) \<longrightarrow>
        ''.scp'' \<notin> set (segments (path ti)) \<and> ''.git'' \<notin> set (segments (path ti))
        \<and> \<not> sublist ''.scp'' (path ti) \<and> \<not> sublist ''.git'' (path ti)
        \<and> uid ti = 0 \<and> gid ti = 0 \<and> uname ti = ''root'' \<and> gname ti = ''root'')"
proof -
  have seg: "\<And>x. \<not> sublist ''.scp'' (path x) \<and> \<not> sublist ''.git'' (path x) \<Longrightarrow>
      ''.scp'' \<notin> set (segments (path x)) \<and> ''.git'' \<notin> set (segments (path x))"
    unfolding segments_def using split_sep_member_sublist by blast
  have A: "sublist ''.scp'' (path t) \<or> sublist ''.git'' (path t) \<longrightarrow> tarfilter t = None"
    using tarfilter_None by blast
  have B: "add_paths pf d local_dir ps = Inr members \<and> ti \<in> set members \<longrightarrow>
        ''.scp'' \<notin> set (segments (path ti)) \<and> ''.git'' \<notin> set (segments (path ti))
        \<and> \<not> sublist ''.scp'' (path ti) \<and> \<not> sublist ''.git'' (path ti)
        \<and> uid ti = 0 \<and> gid ti = 0 \<and> uname ti = ''root'' \<and> gname ti = ''root''"
  proof
    assume "add_paths pf d local_dir ps = Inr members \<and> ti \<in> set members"
    then have "\<not> sublist ''.scp'' (path ti) \<and> \<not> sublist ''.git'' (path ti)
       \<and> uid ti = 0 \<and> gid ti = 0 \<and> uname ti = ''root'' \<and> gname ti = ''root''"
      using add_paths_members by blast
    with seg[of ti] show "''.scp'' \<notin> set (segments (path ti)) \<and> ''.git'' \<notin> set (segments (path ti))
        \<and> \<not> sublist ''.scp'' (path ti) \<and> \<not> sublist ''.git'' (path ti)
        \<and> uid ti = 0 \<and> gid ti = 0 \<and> uname ti = ''root'' \<and> gname ti = ''root''" by blast
  qed
  have C: "a \<in> set (packed (fst (puttree pf E conn ps w))) \<and> a \<notin> set (packed w) \<and> ti \<in> set (snd a) \<longrightarrow>
        ''.scp'' \<notin> set (segments (path ti)) \<and> ''.git'' \<notin> set (segments (path ti))
        \<and> \<not> sublist ''.scp'' (path ti) \<and> \<not> sublist ''.git'' (path ti)
        \<and> uid ti = 0 \<and> gid ti = 0 \<and> uname ti = ''root'' \<and> gname ti = ''root''"
  proof
    assume a: "a \<in> set (packed (fst (puttree pf E conn ps w))) \<and> a \<notin> set (packed w) \<and> ti \<in> set (snd a)"
    from puttree_packed[of pf E conn ps w] a obtain local_dir members where
      "add_paths pf ((disk w)(mkstemp_name E (mkstemp_count w) \<mapsto> RegFile (current_owner E)))
               local_dir ps = Inr members" "snd a = members"
      by auto
    with a have "\<not> sublist ''.scp'' (path ti) \<and> \<not> sublist ''.git'' (path ti)
       \<and> uid ti = 0 \<and> gid ti = 0 \<and> uname ti = ''root'' \<and> gname ti = ''root''"
      using add_paths_members by blast
    with seg[of ti] show "''.scp'' \<notin> set (segments (path ti)) \<and> ''.git'' \<notin> set (segments (path ti))
        \<and> \<not> sublist ''.scp'' (path ti) \<and> \<not> sublist ''.git'' (path ti)
        \<and> uid ti = 0 \<and> gid ti = 0 \<and> uname ti = ''root'' \<and> gname ti = ''root''" by blast
  qed
  from A B C show ?thesis by (intro conjI)
qed

theorem upload_archive_members_filtered_witness:
  "sublist ''.git'' (path \<lparr>path = ''src/.gitignore'', isdir = False, uid = 1000, gid = 1000,
                            uname = ''alice'', gname = ''staff''\<rparr>)
   \<and> tarfilter \<lparr>path = ''src/.gitignore'', isdir = False, uid = 1000, gid = 1000,
                 uname = ''alice'', gname = ''staff''\<rparr> = None
   \<and> \<lparr>path = ''src/a.py'', isdir = False, uid = 0, gid = 0, uname = ''root'', gname = ''root''\<rparr>
       \<in> set [ \<lparr>path = ''src'', isdir = True, uid = 0, gid = 0, uname = ''root'', gname = ''root''\<rparr>,
               \<lparr>path = ''src/a.py'', isdir = False, uid = 0, gid = 0, uname = ''root'', gname = ''root''\<rparr>,
               \<lparr>path = ''src/sub'', isdir = True, uid = 0, gid = 0, uname = ''root'', gname = ''root''\<rparr>,
               \<lparr>path = ''src/sub/b.py'', isdir = False, uid = 0, gid = 0, uname = ''root'', gname = ''root''\<rparr>,
               \<lparr>path = ''README.md'', isdir = False, uid = 0, gid = 0, uname = ''root'', gname = ''root''\<rparr> ]
   \<and> ''.git'' \<notin> set (segments ''src/a.py'')
   \<and> ''.scp'' \<notin> set (segments ''src/a.py'')
   \<and> packed (fst (puttree (posixpath ''/'') disconnected_env (0, proj_session)
          [''/proj/src'', ''/proj/README.md''] example_world))
       = [(''/tmp/scp_0'',
           [ \<lparr>path = ''src'', isdir = True, uid = 0, gid = 0, uname = ''root'', gname = ''root''\<rparr>,
             \<lparr>path = ''src/a.py'', isdir = False, uid = 0, gid = 0, uname = ''root'', gname = ''root''\<rparr>,
             \<lparr>path = ''src/sub'', isdir = True, uid = 0, gid = 0, uname = ''root'', gname = ''root''\<rparr>,
             \<lparr>path = ''src/sub/b.py'', isdir = False, uid = 0, gid = 0, uname = ''root'', gname = ''root''\<rparr>,
             \<lparr>path = ''README.md'', isdir = False, uid = 0, gid = 0, uname = ''root'', gname = ''root''\<rparr> ])]
   \<and> packed example_world = []"
  using upload_archive_members_filtered
    [where ti = "\<lparr>path = ''src/a.py'', isdir = False, uid = 0, gid = 0, uname = ''root'', gname = ''root''\<rparr>"
       and a = "(''/tmp/scp_0'',
           [ \<lparr>path = ''src'', isdir = True, uid = 0, gid = 0, uname = ''root'', gname = ''root''\<rparr>,
             \<lparr>path = ''src/a.py'', isdir = False, uid = 0, gid = 0, uname = ''root'', gname = ''root''\<rparr>,
             \<lparr>path = ''src/sub'', isdir = True, uid = 0, gid = 0, uname = ''root'', gname = ''root''\<rparr>,
             \<lparr>path = ''src/sub/b.py'', isdir = False, uid = 0, gid = 0, uname = ''root'', gname = ''root''\<rparr>,
             \<lparr>path = ''README.md'', isdir = False, uid = 0, gid = 0, uname = ''root'', gname = ''root''\<rparr> ])"
       and pf = "posixpath ''/''" and E = disconnected_env and conn = "(0, proj_session)"
       and ps = "[''/proj/src'', ''/proj/README.md'']" and w = example_world]
    disconnected_puttree
  using upload_archive_members_filtered
    [of "\<lparr>path = ''src/.gitignore'', isdir = False, uid = 1000, gid = 1000,
           uname = ''alice'', gname = ''staff''\<rparr>"
        "posixpath ''/''" example_disk "''/proj''" "[''/proj/src'', ''/proj/README.md'']"
        "[ \<lparr>path = ''src'', isdir = True, uid = 0, gid = 0, uname = ''root'', gname = ''root''\<rparr>,
           \<lparr>path = ''src/a.py'', isdir = False, uid = 0, gid = 0, uname = ''root'', gname = ''root''\<rparr>,
           \<lparr>path = ''src/sub'', isdir = True, uid = 0, gid = 0, uname = ''root'', gname = ''root''\<rparr>,
           \<lparr>path = ''src/sub/b.py'', isdir = False, uid = 0, gid = 0, uname = ''root'', gname = ''root''\<rparr>,
           \<lparr>path = ''README.md'', isdir = False, uid = 0, gid = 0, uname = ''root'', gname = ''root''\<rparr> ]"
        "\<lparr>path = ''src/a.py'', isdir = False, uid = 0, gid = 0, uname = ''root'', gname = ''root''\<rparr>"]
    example_add_paths
  by (simp add: sublist_Cons_right example_world_def)

subsection \<open>Grouping\<close>

lemma group_paths_filter:
  "group_paths pf conns gs ps =
     group_paths pf conns gs (filter (\<lambda>p. \<not> sublist ''.scp'' p \<and> \<not> sublist ''.git'' p) ps)"
  by (induction ps arbitrary: gs) (auto split: sum.splits error.splits)

lemma setdefault_append_member:
  "(k, qs) \<in> set (setdefault_append gs conn p) \<Longrightarrow> q \<in> set qs \<Longrightarrow>
     q = p \<or> (\<exists>g \<in> set gs. q \<in> set (snd g))"
  by (induction gs conn p rule: setdefault_append.induct) (fastforce split: if_splits)+

lemma group_paths_member:
  "group_paths pf conns gs ps = Inr gs' \<Longrightarrow> (k, qs) \<in> set gs' \<Longrightarrow> q \<in> set qs \<Longrightarrow>
     (\<exists>g \<in> set gs. q \<in> set (snd g))
     \<or> (q \<in> set ps \<and> \<not> sublist ''.scp'' q \<and> \<not> sublist ''.git'' q)"
proof (induction ps arbitrary: gs)
  case Nil
  then show ?case by force
next
  case (Cons p ps)
  show ?case
  proof (cases "sublist ''.scp'' p \<or> sublist ''.git'' p")
    case True
    with Cons.prems have "group_paths pf conns gs ps = Inr gs'" by auto
    from Cons.IH[OF this Cons.prems(2,3)] show ?thesis by auto
  next
    case False
    show ?thesis
    proof (cases "connection pf conns p")
      case (Inr conn)
      with False Cons.prems have "group_paths pf conns (setdefault_append gs conn p) ps = Inr gs'"
        by auto
      from Cons.IH[OF this Cons.prems(2,3)] False show ?thesis
        by (auto dest: setdefault_append_member)
    next
      case (Inl e)
      with False Cons.prems have "group_paths pf conns gs ps = Inr gs'"
        by (cases e) auto
      from Cons.IH[OF this Cons.prems(2,3)] show ?thesis by auto
    qed
  qed
qed

text \<open>
  The drop rule is a test on substrings, not on path components. Both executors behave
  exactly as if the paths that contain \<^verbatim>\<open>.scp\<close> or \<^verbatim>\<open>.git\<close> anywhere in their text had not
  been given: such a path enters no group, raises nothing and is passed to no transfer;
  and the filter of the upload archive rejects every entry whose path contains one of
  the two strings. The file names \<^verbatim>\<open>.gitignore\<close> and \<^verbatim>\<open>notes.scpx\<close> are dropped in this way.
\<close>

lemma drop_rule_is_substring_test:
  "put_executor pf E ps w
      = put_executor pf E (filter (\<lambda>p. \<not> sublist ''.scp'' p \<and> \<not> sublist ''.git'' p) ps) w
   \<and> get_executor pf E ps w
      = get_executor pf E (filter (\<lambda>p. \<not> sublist ''.scp'' p \<and> \<not> sublist ''.git'' p) ps) w
   \<and> (group_paths pf conns [] ps = Inr gs \<and> (k, qs) \<in> set gs \<and> q \<in> set qs \<longrightarrow>
         q \<in> set ps \<and> \<not> sublist ''.scp'' q \<and> \<not> sublist ''.git'' q)
   \<and> (sublist ''.scp'' (path ti) \<or> sublist ''.git'' (path ti) \<longrightarrow> tarfilter ti = None)
   \<and> sublist ''.git'' ''/proj/.gitignore'' \<and> sublist ''.scp'' ''/proj/notes.scpx''
   \<and> put_executor pf E [''/proj/.gitignore'', ''/proj/notes.scpx''] w = (w, Inr ())
   \<and> get_executor pf E [''/proj/.gitignore'', ''/proj/notes.scpx''] w = (w, Inr ())"
proof -
  have A: "put_executor pf E ps w
      = put_executor pf E (filter (\<lambda>p. \<not> sublist ''.scp'' p \<and> \<not> sublist ''.git'' p) ps) w"
    unfolding put_executor_def using group_paths_filter[of pf "connections w" "[]" ps] by simp
  have B: "get_executor pf E ps w
      = get_executor pf E (filter (\<lambda>p. \<not> sublist ''.scp'' p \<and> \<not> sublist ''.git'' p) ps) w"
    unfolding get_executor_def using group_paths_filter[of pf "connections w" "[]" ps] by simp
  have C: "group_paths pf conns [] ps = Inr gs \<and> (k, qs) \<in> set gs \<and> q \<in> set qs \<longrightarrow>
         q \<in> set ps \<and> \<not> sublist ''.scp'' q \<and> \<not> sublist ''.git'' q"
    using group_paths_member[of pf conns "[]" ps gs k qs q] by auto
  have D: "sublist ''.scp'' (path ti) \<or> sublist ''.git'' (path ti) \<longrightarrow> tarfilter ti = None"
    by (auto simp: tarfilter_def)
  have F: "sublist ''.git'' ''/proj/.gitignore''" "sublist ''.scp'' ''/proj/notes.scpx''"
    by (simp_all add: sublist_Cons_right)
  have G: "put_executor pf E [''/proj/.gitignore'', ''/proj/notes.scpx''] w = (w, Inr ())"
    using F by (simp add: put_executor_def seq_def lift_def return_def)
  have H: "get_executor pf E [''/proj/.gitignore'', ''/proj/notes.scpx''] w = (w, Inr ())"
    using F by (simp add: get_executor_def seq_def lift_def return_def)
  from A B C D F G H show ?thesis by (intro conjI)
qed

lemma drop_rule_is_substring_test_example:
  "filter (\<lambda>p. \<not> sublist ''.scp'' p \<and> \<not> sublist ''.git'' p)
      [''/proj/src/.gitignore'', ''/proj/README.md''] = [''/proj/README.md'']
   \<and> put_executor (posixpath ''/'') example_env
        [''/proj/src/.gitignore'', ''/proj/README.md''] example_world
      = put_executor (posixpath ''/'') example_env [''/proj/README.md''] example_world
   \<and> group_paths (posixpath ''/'') [(0, proj_session), (1, work_session)] []
        [''/proj/src/.gitignore'', ''/proj/README.md'']
      = Inr [((0, proj_session), [''/proj/README.md''])]
   \<and> ((0, proj_session), [''/proj/README.md'']) \<in> set [((0, proj_session), [''/proj/README.md''])]
   \<and> ''/proj/README.md'' \<in> set [''/proj/README.md'']
   \<and> \<not> sublist ''.scp'' ''/proj/README.md'' \<and> \<not> sublist ''.git'' ''/proj/README.md''"
  using drop_rule_is_substring_test
    [of "posixpath ''/''" example_env "[''/proj/src/.gitignore'', ''/proj/README.md'']"
        example_world "[(0, proj_session), (1, work_session)]"
        "[((0, proj_session), [''/proj/README.md''])]" "(0, proj_session)"
        "[''/proj/README.md'']" "''/proj/README.md''"]
    example_group_paths
  by (simp add: sublist_Cons_right)

text \<open>
  Claim C9 says that a path whose text contains \<^verbatim>\<open>.scp\<close> or \<^verbatim>\<open>.git\<close> is excluded from grouping
  and from archive packing, and is therefore never transferred. The rule is the
  substring test that the claim describes (lemma \<open>drop_rule_is_substring_test\<close>), and on
  \<^verbatim>\<open>put\<close> nothing that it drops is transferred. On a bulk \<^verbatim>\<open>get\<close> the rule is applied to the
  paths given, but \<^verbatim>\<open>gettree\<close> does not pack the paths of its group: its remote command
  packs the whole remote directory of the common root, and the archive is extracted
  without a filter. Here \<^verbatim>\<open>/proj/.gitignore\<close> is dropped from the group, it is not on the
  local disk before, and the download writes it.
\<close>

theorem bulk_get_downloads_dropped_file:
  "sublist ''.git'' ''/proj/.gitignore''
   \<and> group_paths (posixpath ''/'') (connections example_world) []
        [''/proj/src'', ''/proj/README.md'', ''/proj/.gitignore'']
      = Inr [((0, proj_session), [''/proj/src'', ''/proj/README.md''])]
   \<and> ''/proj/.gitignore'' \<notin> dom (disk example_world)
   \<and> snd (get_executor (posixpath ''/'') remote_tree_env
        [''/proj/src'', ''/proj/README.md'', ''/proj/.gitignore''] example_world) = Inr ()
   \<and> calls (fst (get_executor (posixpath ''/'') remote_tree_env
        [''/proj/src'', ''/proj/README.md'', ''/proj/.gitignore''] example_world))
      = [(0, Plink ''tar -C /home/guest/proj -cf /tmp/scp_0 .''),
         (0, Getfile ''/tmp/scp_0'' ''/tmp/scp_0''),
         (0, Remove ''/tmp/scp_0'')]
   \<and> messages (fst (get_executor (posixpath ''/'') remote_tree_env
        [''/proj/src'', ''/proj/README.md'', ''/proj/.gitignore''] example_world))
      = [''SCP: preparing download ...'', ''SCP: extracting ...'', ''SCP: Downloaded /proj!'']
   \<and> disk (fst (get_executor (posixpath ''/'') remote_tree_env
        [''/proj/src'', ''/proj/README.md'', ''/proj/.gitignore''] example_world))
        ''/proj/.gitignore'' = Some (RegFile alice)"
proof -
  have A: "sublist ''.git'' ''/proj/.gitignore''"
    by (simp add: sublist_Cons_right)
  have B: "''/proj/.gitignore'' \<notin> dom (disk example_world)"
    by (simp add: example_world_def example_disk_def)
  have C: "get_executor (posixpath ''/'') remote_tree_env
        [''/proj/src'', ''/proj/README.md'', ''/proj/.gitignore''] example_world
      = gettree (posixpath ''/'') remote_tree_env (0, proj_session)
          [''/proj/src'', ''/proj/README.md''] example_world"
    unfolding get_executor_def example_groups_gitignore
    by (simp add: seq_def lift_def get_group_def example_isfile remote_tree_gettree return_def)
  from A B example_groups_gitignore show ?thesis
    unfolding C remote_tree_gettree by simp
qed

subsection \<open>Single files and archives\<close>

lemma isfile_dom: "isfile d p \<Longrightarrow> p \<in> dom d"
  by (auto simp: isfile_def split: option.splits)

text \<open>
  Claim C4. A group of exactly one path that is a regular file is transferred directly:
  \<^verbatim>\<open>put\<close> and \<^verbatim>\<open>get\<close> make no temporary file and write no archive, the files on the disk
  stay the same, and the only remote call is the \<^verbatim>\<open>putfile\<close> or \<^verbatim>\<open>getfile\<close> of that path
  (none when the path has no valid remote path). Every other group is handed to the
  archive pipeline, \<^verbatim>\<open>puttree\<close> or \<^verbatim>\<open>gettree\<close>.
\<close>

theorem single_file_fast_path:
  "(length ps = 1 \<and> isfile (disk w) (hd ps) \<longrightarrow>
      mkstemp_count (fst (put_group pf E conn ps w)) = mkstemp_count w
      \<and> disk (fst (put_group pf E conn ps w)) = disk w
      \<and> packed (fst (put_group pf E conn ps w)) = packed w
      \<and> (case to_remote_path pf (snd conn) (hd ps) of
            Inl e \<Rightarrow> put_group pf E conn ps w = (w, Inl e)
          | Inr remote \<Rightarrow>
              calls (fst (put_group pf E conn ps w)) = calls w @ [(fst conn, Putfile (hd ps) remote)])
      \<and> mkstemp_count (fst (get_group pf E conn ps w)) = mkstemp_count w
      \<and> dom (disk (fst (get_group pf E conn ps w))) = dom (disk w)
      \<and> packed (fst (get_group pf E conn ps w)) = packed w
      \<and> (case to_remote_path pf (snd conn) (hd ps) of
            Inl e \<Rightarrow> get_group pf E conn ps w = (w, Inl e)
          | Inr remote \<Rightarrow>
              calls (fst (get_group pf E conn ps w)) = calls w @ [(fst conn, Getfile remote (hd ps))]))
   \<and> (\<not> (length ps = 1 \<and> isfile (disk w) (hd ps)) \<longrightarrow>
        put_group pf E conn ps w = puttree pf E conn ps w
        \<and> get_group pf E conn ps w = gettree pf E conn ps w)"
proof -
  have A: "length ps = 1 \<and> isfile (disk w) (hd ps) \<longrightarrow>
      mkstemp_count (fst (put_group pf E conn ps w)) = mkstemp_count w
      \<and> disk (fst (put_group pf E conn ps w)) = disk w
      \<and> packed (fst (put_group pf E conn ps w)) = packed w
      \<and> (case to_remote_path pf (snd conn) (hd ps) of
            Inl e \<Rightarrow> put_group pf E conn ps w = (w, Inl e)
          | Inr remote \<Rightarrow>
              calls (fst (put_group pf E conn ps w)) = calls w @ [(fst conn, Putfile (hd ps) remote)])"
    unfolding put_group_def SCPFolder_putfile_def stmt_defs
    by (auto simp: Let_def split: sum.splits option.splits)
  have B: "length ps = 1 \<and> isfile (disk w) (hd ps) \<longrightarrow>
      mkstemp_count (fst (get_group pf E conn ps w)) = mkstemp_count w
      \<and> dom (disk (fst (get_group pf E conn ps w))) = dom (disk w)
      \<and> packed (fst (get_group pf E conn ps w)) = packed w
      \<and> (case to_remote_path pf (snd conn) (hd ps) of
            Inl e \<Rightarrow> get_group pf E conn ps w = (w, Inl e)
          | Inr remote \<Rightarrow>
              calls (fst (get_group pf E conn ps w)) = calls w @ [(fst conn, Getfile remote (hd ps))])"
    unfolding get_group_def SCPFolder_getfile_def stmt_defs
    by (auto simp: Let_def dest: isfile_dom split: sum.splits option.splits)
  have C: "\<not> (length ps = 1 \<and> isfile (disk w) (hd ps)) \<longrightarrow>
        put_group pf E conn ps w = puttree pf E conn ps w
        \<and> get_group pf E conn ps w = gettree pf E conn ps w"
    by (auto simp: put_group_def get_group_def)
  from A B C show ?thesis by blast
qed

theorem single_file_fast_path_witness:
  "length [''/proj/README.md''] = 1
   \<and> isfile (disk example_world) (hd [''/proj/README.md''])
   \<and> mkstemp_count (fst (put_group (posixpath ''/'') example_env (0, proj_session)
        [''/proj/README.md''] example_world)) = mkstemp_count example_world
   \<and> disk (fst (put_group (posixpath ''/'') example_env (0, proj_session)
        [''/proj/README.md''] example_world)) = disk example_world
   \<and> calls (fst (put_group (posixpath ''/'') example_env (0, proj_session)
        [''/proj/README.md''] example_world))
      = [(0, Putfile ''/proj/README.md'' ''/home/guest/proj/README.md'')]
   \<and> calls (fst (get_group (posixpath ''/'') example_env (0, proj_session)
        [''/proj/README.md''] example_world))
      = [(0, Getfile ''/home/guest/proj/README.md'' ''/proj/README.md'')]
   \<and> \<not> isfile (disk example_world) (hd [''/proj/src''])
   \<and> put_group (posixpath ''/'') example_env (0, proj_session) [''/proj/src''] example_world
      = puttree (posixpath ''/'') example_env (0, proj_session) [''/proj/src''] example_world
   \<and> get_group (posixpath ''/'') example_env (0, proj_session) [''/proj/src''] example_world
      = gettree (posixpath ''/'') example_env (0, proj_session) [''/proj/src''] example_world"
  using single_file_fast_path
      [of "[''/proj/README.md'']" example_world "posixpath ''/''" example_env "(0, proj_session)"]
    single_file_fast_path
      [of "[''/proj/src'']" example_world "posixpath ''/''" example_env "(0, proj_session)"]
    example_isfile example_to_remote_path
  by (simp add: example_world_def)

subsection \<open>Remote commands\<close>

text \<open>
  Claim C5. Once the common root and the remote root \<open>dir\<close> are found, the only command
  that \<^verbatim>\<open>gettree\<close> passes to \<^verbatim>\<open>plink\<close> is \<^verbatim>\<open>tar -C dir -cf archive .\<close>, and it does so on
  every run; \<^verbatim>\<open>puttree\<close> passes one command,
  \<^verbatim>\<open>mkdir -p dir; tar -C dir -xf archive; rm archive\<close>, in a single call, when the archive
  was packed and uploaded, and none otherwise. The archive is \<^verbatim>\<open>/tmp/\<close> followed by the
  base name of the local temporary file. When no root is found, no command is issued.
\<close>

theorem remote_command_forms:
  "(most E ps = Inr local_dir \<and> to_remote_path pf (snd conn) local_dir = Inr remote_dir \<longrightarrow>
      plink_commands (calls (fst (gettree pf E conn ps w)))
        = plink_commands (calls w)
          @ [''tar -C '' @ remote_dir @ '' -cf /tmp/''
               @ basename pf (mkstemp_name E (mkstemp_count w)) @ '' .'']
      \<and> plink_commands (calls (fst (puttree pf E conn ps w)))
        = plink_commands (calls w)
          @ (if (\<exists>members. add_paths pf
                    ((disk w)(mkstemp_name E (mkstemp_count w) \<mapsto> RegFile (current_owner E)))
                    local_dir ps = Inr members)
                \<and> outcome E (calls w @ [(fst conn, Putfile (mkstemp_name E (mkstemp_count w))
                      (''/tmp/'' @ basename pf (mkstemp_name E (mkstemp_count w))))]) = None
             then [''mkdir -p '' @ remote_dir @ ''; tar -C '' @ remote_dir @ '' -xf /tmp/''
                     @ basename pf (mkstemp_name E (mkstemp_count w)) @ ''; rm /tmp/''
                     @ basename pf (mkstemp_name E (mkstemp_count w))]
             else []))
   \<and> ((\<forall>local_dir. most E ps \<noteq> Inr local_dir
          \<or> (\<forall>remote_dir. to_remote_path pf (snd conn) local_dir \<noteq> Inr remote_dir)) \<longrightarrow>
        plink_commands (calls (fst (gettree pf E conn ps w))) = plink_commands (calls w)
        \<and> plink_commands (calls (fst (puttree pf E conn ps w))) = plink_commands (calls w))"
proof -
  have A: "most E ps = Inr local_dir \<and> to_remote_path pf (snd conn) local_dir = Inr remote_dir \<longrightarrow>
      plink_commands (calls (fst (gettree pf E conn ps w)))
        = plink_commands (calls w)
          @ [''tar -C '' @ remote_dir @ '' -cf /tmp/''
               @ basename pf (mkstemp_name E (mkstemp_count w)) @ '' .'']"
    by (auto simp: gettree_unfold fst_try_finally gettree_finally_plinks handled_frame
          gettree_try_plinks pack_command_def)
  have B: "most E ps = Inr local_dir \<and> to_remote_path pf (snd conn) local_dir = Inr remote_dir \<longrightarrow>
      plink_commands (calls (fst (puttree pf E conn ps w)))
        = plink_commands (calls w)
          @ (if (\<exists>members. add_paths pf
                    ((disk w)(mkstemp_name E (mkstemp_count w) \<mapsto> RegFile (current_owner E)))
                    local_dir ps = Inr members)
                \<and> outcome E (calls w @ [(fst conn, Putfile (mkstemp_name E (mkstemp_count w))
                      (''/tmp/'' @ basename pf (mkstemp_name E (mkstemp_count w))))]) = None
             then [''mkdir -p '' @ remote_dir @ ''; tar -C '' @ remote_dir @ '' -xf /tmp/''
                     @ basename pf (mkstemp_name E (mkstemp_count w)) @ ''; rm /tmp/''
                     @ basename pf (mkstemp_name E (mkstemp_count w))]
             else [])"
  proof
    assume ok: "most E ps = Inr local_dir \<and> to_remote_path pf (snd conn) local_dir = Inr remote_dir"
    show "plink_commands (calls (fst (puttree pf E conn ps w)))
        = plink_commands (calls w)
          @ (if (\<exists>members. add_paths pf
                    ((disk w)(mkstemp_name E (mkstemp_count w) \<mapsto> RegFile (current_owner E)))
                    local_dir ps = Inr members)
                \<and> outcome E (calls w @ [(fst conn, Putfile (mkstemp_name E (mkstemp_count w))
                      (''/tmp/'' @ basename pf (mkstemp_name E (mkstemp_count w))))]) = None
             then [''mkdir -p '' @ remote_dir @ ''; tar -C '' @ remote_dir @ '' -xf /tmp/''
                     @ basename pf (mkstemp_name E (mkstemp_count w)) @ ''; rm /tmp/''
                     @ basename pf (mkstemp_name E (mkstemp_count w))]
             else [])"
    proof (cases "add_paths pf ((disk w)(mkstemp_name E (mkstemp_count w) \<mapsto> RegFile (current_owner E)))
             local_dir ps")
      case (Inl e)
      with ok show ?thesis by (simp add: puttree_unfold)
    next
      case (Inr members)
      with ok show ?thesis
        by (simp add: puttree_unfold fst_try_finally os_remove_def handled_frame
              puttree_try_plinks unpack_command_def)
    qed
  qed
  have C: "(\<forall>local_dir. most E ps \<noteq> Inr local_dir
          \<or> (\<forall>remote_dir. to_remote_path pf (snd conn) local_dir \<noteq> Inr remote_dir)) \<longrightarrow>
        plink_commands (calls (fst (gettree pf E conn ps w))) = plink_commands (calls w)
        \<and> plink_commands (calls (fst (puttree pf E conn ps w))) = plink_commands (calls w)"
    using tree_early_failure[of E ps pf conn w] by auto
  from A B C show ?thesis by blast
qed

theorem remote_command_forms_witness:
  "most example_env [''/proj/src'', ''/proj/README.md''] = Inr ''/proj''
   \<and> to_remote_path (posixpath ''/'') (snd (0::nat, proj_session)) ''/proj'' = Inr ''/home/guest/proj''
   \<and> plink_commands (calls (fst (gettree (posixpath ''/'') example_env (0, proj_session)
         [''/proj/src'', ''/proj/README.md''] example_world)))
      = [''tar -C /home/guest/proj -cf /tmp/scp_0 .'']
   \<and> plink_commands (calls (fst (puttree (posixpath ''/'') example_env (0, proj_session)
         [''/proj/src'', ''/proj/README.md''] example_world)))
      = [''mkdir -p /home/guest/proj; tar -C /home/guest/proj -xf /tmp/scp_0; rm /tmp/scp_0'']
   \<and> most (example_env\<lparr>most := (\<lambda>ps. Inl (ValueError ''no common path''))\<rparr>)
         [''/proj/src'', ''/proj/README.md''] = Inl (ValueError ''no common path'')
   \<and> plink_commands (calls (fst (gettree (posixpath ''/'')
         (example_env\<lparr>most := (\<lambda>ps. Inl (ValueError ''no common path''))\<rparr>) (0, proj_session)
         [''/proj/src'', ''/proj/README.md''] example_world))) = []
   \<and> plink_commands (calls (fst (puttree (posixpath ''/'')
         (example_env\<lparr>most := (\<lambda>ps. Inl (ValueError ''no common path''))\<rparr>) (0, proj_session)
         [''/proj/src'', ''/proj/README.md''] example_world))) = []"
proof -
  have a: "most example_env [''/proj/src'', ''/proj/README.md''] = Inr ''/proj''"
    by (simp add: example_env_def)
  have b: "to_remote_path (posixpath ''/'') (snd (0::nat, proj_session)) ''/proj'' = Inr ''/home/guest/proj''"
    using example_to_remote_path by simp
  have c: "mkstemp_name example_env (mkstemp_count example_world) = ''/tmp/scp_0''"
    "current_owner example_env = alice" "calls example_world = []"
    "basename (posixpath ''/'') ''/tmp/scp_0'' = ''scp_0''"
    "outcome example_env = (\<lambda>t. None)"
    by (simp_all add: example_env_def example_world_def posixpath_def posix_basename_def)
  from remote_command_forms
      [of example_env "[''/proj/src'', ''/proj/README.md'']" "''/proj''" "posixpath ''/''"
          "(0, proj_session)" "''/home/guest/proj''" example_world] a b
  have d: "plink_commands (calls (fst (gettree (posixpath ''/'') example_env (0, proj_session)
         [''/proj/src'', ''/proj/README.md''] example_world)))
      = [''tar -C /home/guest/proj -cf /tmp/scp_0 .'']
   \<and> plink_commands (calls (fst (puttree (posixpath ''/'') example_env (0, proj_session)
         [''/proj/src'', ''/proj/README.md''] example_world)))
      = [''mkdir -p /home/guest/proj; tar -C /home/guest/proj -xf /tmp/scp_0; rm /tmp/scp_0'']"
    by (simp add: c example_add_paths_tmp del: add_paths.simps)
  from remote_command_forms
      [of "example_env\<lparr>most := (\<lambda>ps. Inl (ValueError ''no common path''))\<rparr>"
          "[''/proj/src'', ''/proj/README.md'']" _ "posixpath ''/''" "(0, proj_session)" _
          example_world]
  have e: "plink_commands (calls (fst (gettree (posixpath ''/'')
         (example_env\<lparr>most := (\<lambda>ps. Inl (ValueError ''no common path''))\<rparr>) (0, proj_session)
         [''/proj/src'', ''/proj/README.md''] example_world))) = []
   \<and> plink_commands (calls (fst (puttree (posixpath ''/'')
         (example_env\<lparr>most := (\<lambda>ps. Inl (ValueError ''no common path''))\<rparr>) (0, proj_session)
         [''/proj/src'', ''/proj/README.md''] example_world))) = []"
    by (simp add: c)
  from a b d e show ?thesis by simp
qed

subsection \<open>Cleanup\<close>

lemma gettree_removes_local_archive:
  "most E ps = Inr local_dir \<Longrightarrow> to_remote_path pf (snd conn) local_dir = Inr remote_dir \<Longrightarrow>
     mkstemp_name E (mkstemp_count w) \<notin> dom (disk (fst (gettree pf E conn ps w)))"
  by (simp only: gettree_unfold fst_try_finally gettree_finally_removes not_False_eq_True)

lemma puttree_local_archive:
  "most E ps = Inr local_dir \<Longrightarrow> to_remote_path pf (snd conn) local_dir = Inr remote_dir \<Longrightarrow>
     mkstemp_name E (mkstemp_count w) \<in> dom (disk (fst (puttree pf E conn ps w)))
       \<longleftrightarrow> (\<exists>e. add_paths pf
                   ((disk w)(mkstemp_name E (mkstemp_count w) \<mapsto> RegFile (current_owner E)))
                   local_dir ps = Inl e)"
proof (cases "add_paths pf ((disk w)(mkstemp_name E (mkstemp_count w) \<mapsto> RegFile (current_owner E)))
             local_dir ps")
  case (Inl e)
  assume "most E ps = Inr local_dir" "to_remote_path pf (snd conn) local_dir = Inr remote_dir"
  with Inl show ?thesis by (simp add: puttree_unfold)
next
  case (Inr members)
  assume "most E ps = Inr local_dir" "to_remote_path pf (snd conn) local_dir = Inr remote_dir"
  with Inr show ?thesis
    by (simp add: puttree_unfold fst_try_finally os_remove_def handled_frame puttree_try_frame)
qed

text \<open>
  Claim C2 says that after every bulk put and every bulk get the local temporary archive
  is gone, whatever stage failed. \<^verbatim>\<open>gettree\<close> keeps this (lemma
  \<open>gettree_removes_local_archive\<close>), and so does \<^verbatim>\<open>puttree\<close> once the archive is packed; but
  \<^verbatim>\<open>puttree\<close> packs the archive before its \<^verbatim>\<open>try\<close> statement, so when packing raises, the
  temporary file stays on the disk (lemma \<open>puttree_local_archive\<close>). Here one path of
  the group is no longer on the disk: \<^verbatim>\<open>puttree\<close> raises and leaves \<^verbatim>\<open>/tmp/scp_0\<close> behind.
\<close>

theorem puttree_leaves_archive_when_packing_fails:
  "puttree (posixpath ''/'') example_env (0, proj_session)
      [''/proj/README.md'', ''/proj/gone.txt''] example_world
     = (example_world\<lparr>disk := (disk example_world)(''/tmp/scp_0'' \<mapsto> RegFile alice),
                        mkstemp_count := 1,
                        messages := [''SCP: preparing upload ...'']\<rparr>,
        Inl (OSError ''No such file or directory: /proj/gone.txt''))
   \<and> ''/tmp/scp_0'' \<notin> dom (disk example_world)
   \<and> ''/tmp/scp_0'' \<in> dom (disk (fst (puttree (posixpath ''/'') example_env (0, proj_session)
      [''/proj/README.md'', ''/proj/gone.txt''] example_world)))"
proof -
  have a: "most example_env [''/proj/README.md'', ''/proj/gone.txt''] = Inr ''/proj''"
    by (simp add: example_env_def)
  have b: "to_remote_path (posixpath ''/'') (snd (0::nat, proj_session)) ''/proj'' = Inr ''/home/guest/proj''"
    using example_to_remote_path by simp
  have c: "\<And>n. mkstemp_name example_env n = ''/tmp/scp_0''"
    "current_owner example_env = alice" "mkstemp_count example_world = 0"
    "messages example_world = []"
    by (simp_all add: example_env_def example_world_def)
  have d: "''/tmp/scp_0'' \<notin> dom (disk example_world)"
    by (simp add: example_world_def example_disk_def)
  have e: "puttree (posixpath ''/'') example_env (0, proj_session)
      [''/proj/README.md'', ''/proj/gone.txt''] example_world
     = (example_world\<lparr>disk := (disk example_world)(''/tmp/scp_0'' \<mapsto> RegFile alice),
                        mkstemp_count := 1,
                        messages := [''SCP: preparing upload ...'']\<rparr>,
        Inl (OSError ''No such file or directory: /proj/gone.txt''))"
    by (simp add: puttree_unfold[OF a b] c example_add_paths_gone del: add_paths.simps)
  from d e show ?thesis by simp
qed

subsection \<open>Failures and the remaining groups\<close>













subsection \<open>Cancelling\<close>

lemma SCPFolder_cancel_raises:
  "SCPFolder_cancel conn w =
     (w\<lparr>connections :=
          map (\<lambda>c. if fst c = fst conn then (fst c, (snd c)\<lparr>cancelled := True\<rparr>) else c)
            (connections w)\<rparr>,
      Inl (ScpAbortError ''Aborted by user!''))"
  by (simp add: SCPFolder_cancel_def SCPClient_cancel_def seq_def raise_def)

lemma cancel_loop_connected:
  "connection pf (connections w) p = Inr conn \<Longrightarrow>
   cancel_loop pf (p # ps) w =
     (w\<lparr>connections :=
          map (\<lambda>c. if fst c = fst conn then (fst c, (snd c)\<lparr>cancelled := True\<rparr>) else c)
            (connections w)\<rparr>,
      Inl (ScpAbortError ''Aborted by user!''))"
  by (simp add: seq_def try_except_def SCPFolder_cancel_raises raise_def)

lemma cancel_loop_not_connected:
  "connection pf (connections w) p = Inl e \<Longrightarrow> cancel_loop pf (p # ps) w = (w, Inl e)"
  by (auto simp: seq_def try_except_def raise_def dest!: connection_raises)

text \<open>
  Claim C10 says that \<^verbatim>\<open>cancel()\<close> always raises \<open>ScpAbortError\<close> after setting the flag
  (lemma \<open>SCPFolder_cancel_raises\<close>), that the command catches only the not-connected
  error around the call, and that the loop therefore ends at the first connected session
  (lemma \<open>cancel_loop_connected\<close>, for a connected path at the head of the loop). The
  handler of the command names \<open>SCPNotConnectedError\<close> of \<^verbatim>\<open>core.scpclient\<close>, while
  \<^verbatim>\<open>connection\<close> raises \<open>ScpNotConnectedError\<close> of \<^verbatim>\<open>core.scpfolder\<close>: a path without a
  session ends the loop too (lemma \<open>cancel_loop_not_connected\<close>). Here the first path
  has no session and the second has one: the command raises at the first path, the
  session of the second is not cancelled, and no status message is shown.
\<close>

theorem cancel_run_stops_at_unconnected_path:
  "cancel_run (posixpath ''/'') example_env [''/other/x'', ''/work/g.txt''] example_world
     = (example_world, Inl (ScpNotConnectedError ''No SCP connection for /other/x!''))
   \<and> is_connected (posixpath ''/'') (connections example_world) ''/work/g.txt''
   \<and> \<not> is_connected (posixpath ''/'') (connections example_world) ''/other/x''"
  by (simp add: cancel_run_def seq_def try_except_def raise_def connection_def is_connected_def
        example_defs posixpath_def)

end
